theory Spec2Isabelle
  imports Complex_Main "HOL-Library.AList"
begin

section \<open>Events\<close>

text \<open>
  The relay client of \<^verbatim>\<open>nostr.service.ts\<close> works on the objects of nostr-tools: an
  \<^verbatim>\<open>EventTemplate\<close> is \<^verbatim>\<open>{ kind, created_at, tags: string[][], content }\<close>, and an
  \<^verbatim>\<open>Event\<close> has the fields \<^verbatim>\<open>id\<close>, \<^verbatim>\<open>pubkey\<close> and \<^verbatim>\<open>sig\<close> besides.
  The field \<^verbatim>\<open>id\<close> is called \<open>id_event\<close> here, since \<open>id\<close> is the identity function of HOL.
  \<^verbatim>\<open>created_at\<close> and \<^verbatim>\<open>kind\<close> are integer-valued numbers.
\<close>

record event_template =
  kind :: int
  created_at :: int
  tags :: "string list list"
  content :: string

record event = event_template +
  id_event :: string
  pubkey :: string
  sig :: string

text \<open>
  \<^verbatim>\<open>
  getTag(tags: string[][], tagName: string): string | undefined {
    const tag = tags.find((t) => t[0] === tagName);
    return tag ? tag[1] : undefined;
  }
  \<close>
  \<^verbatim>\<open>undefined\<close> is \<open>None\<close>: \<^verbatim>\<open>t[0]\<close> of an empty tag and \<^verbatim>\<open>tag[1]\<close> of a tag with one
  element are \<^verbatim>\<open>undefined\<close>.
\<close>

definition getTag :: "string list list \<Rightarrow> string \<Rightarrow> string option" where
  "getTag tgs tagName =
     (case find (\<lambda>t. case t of [] \<Rightarrow> False | t0 # _ \<Rightarrow> t0 = tagName) tgs of
        None \<Rightarrow> None
      | Some tag \<Rightarrow> (case tag of _ # t1 # _ \<Rightarrow> Some t1 | _ \<Rightarrow> None))"

section \<open>Vote tally: \<^verbatim>\<open>getVoteResult\<close>\<close>

text \<open>
  \<^verbatim>\<open>
  const latestVotes: { [key: string]: Event } = {};
  events.forEach(e => {
    if (e.content === '+' || e.content === '-') {
      const existingVote = latestVotes[e.pubkey];
      if (!existingVote || existingVote.created_at < e.created_at) {
        latestVotes[e.pubkey] = e;
      }
    }
  });
  let result = 0;
  Object.values(latestVotes).forEach(e => {
    if (e.content === '+') result++;
    else if (e.content === '-') result--;
  });
  return result;
  \<close>
  The parameter of the model is the array that \<^verbatim>\<open>await this.relay.list([filter])\<close> delivers.
  The object \<^verbatim>\<open>latestVotes\<close> is an association list in insertion order: assigning to a key
  that is present replaces its value in place, assigning to a new key appends it, which is
  what \<open>AList.update\<close> does. \<^verbatim>\<open>Object.values\<close> is the list of the second components.
  The keys are the public keys of the events' authors: nostr-tools delivers only events whose
  \<^verbatim>\<open>pubkey\<close> is a string of 64 hexadecimal digits, so a key is neither the name of a
  property that every JavaScript object inherits nor an array index, which
  \<^verbatim>\<open>Object.values\<close> would list first.
\<close>

type_synonym votes = "(string \<times> event) list"

definition latestVotes_step :: "votes \<Rightarrow> event \<Rightarrow> votes" where
  "latestVotes_step latestVotes e =
     (if content e = ''+'' \<or> content e = ''-'' then
        (case map_of latestVotes (pubkey e) of
           None \<Rightarrow> AList.update (pubkey e) e latestVotes
         | Some existingVote \<Rightarrow>
             if created_at existingVote < created_at e
             then AList.update (pubkey e) e latestVotes
             else latestVotes)
      else latestVotes)"

definition latestVotes_of :: "event list \<Rightarrow> votes" where
  "latestVotes_of events = foldl latestVotes_step [] events"

definition count_step :: "int \<Rightarrow> event \<Rightarrow> int" where
  "count_step result e =
     (if content e = ''+'' then result + 1
      else if content e = ''-'' then result - 1
      else result)"

definition getVoteResult :: "event list \<Rightarrow> int" where
  "getVoteResult events = foldl count_step 0 (map snd (latestVotes_of events))"

subsection \<open>The tally in the words of the specification\<close>

text \<open>
  A vote counts when its content is \<^verbatim>\<open>"+"\<close> or \<^verbatim>\<open>"-"\<close>; its value is \<open>+1\<close>, \<open>-1\<close>,
  and \<open>0\<close> for any other content.
\<close>

definition valid_vote :: "event \<Rightarrow> bool" where
  "valid_vote e = (content e = ''+'' \<or> content e = ''-'')"

definition vote_value :: "event \<Rightarrow> int" where
  "vote_value e = (if content e = ''+'' then 1 else if content e = ''-'' then - 1 else 0)"

text \<open>
  The event with the greatest \<^verbatim>\<open>created_at\<close> of a list, the first one in the relay's
  order where several events share that time stamp.
\<close>

definition later_of :: "event option \<Rightarrow> event \<Rightarrow> event option" where
  "later_of best e =
     (case best of None \<Rightarrow> Some e
      | Some m \<Rightarrow> if created_at m < created_at e then Some e else Some m)"

definition latest_event :: "event list \<Rightarrow> event option" where
  "latest_event es = foldl later_of None es"

definition events_by :: "string \<Rightarrow> event list \<Rightarrow> event list" where
  "events_by a es = filter (\<lambda>e. pubkey e = a) es"

definition latest_value :: "string \<Rightarrow> event list \<Rightarrow> int" where
  "latest_value a es =
     (case latest_event (events_by a es) of None \<Rightarrow> 0 | Some e \<Rightarrow> vote_value e)"

text \<open>
  ``For each distinct author keep only the event with the greatest \<^verbatim>\<open>created_at\<close>; sum
  \<open>+1\<close> for \<^verbatim>\<open>"+"\<close> content, \<open>-1\<close> for \<^verbatim>\<open>"-"\<close>, ignore any other content.''
\<close>

definition tally_latest_per_author :: "event list \<Rightarrow> int" where
  "tally_latest_per_author es = (\<Sum>a\<leftarrow>remdups (map pubkey es). latest_value a es)"

text \<open>A kind-7 event as \<^verbatim>\<open>vote\<close> builds it, for the examples.\<close>

definition example_vote :: "string \<Rightarrow> string \<Rightarrow> int \<Rightarrow> event" where
  "example_vote author c t =
     \<lparr>kind = 7, created_at = t,
      tags = [[''t'', ''zapstack_test''], [''e'', ''answer1''], [''p'', ''receiver'']],
      content = c, id_event = author @ c, pubkey = author, sig = ''''\<rparr>"

section \<open>Answers of a topic: \<^verbatim>\<open>listAnswers\<close>\<close>

text \<open>
  \<^verbatim>\<open>
  return events.flatMap((event: Event) => {
    let posts: Answer[] = []
    if (!event.tags.some((subArr) => subArr[0] === 'p')) {
      const post: Answer = { ...event, message: event.content, vote: 0 }
      posts.push(post);
    }
    return posts;
  });
  \<close>
  An \<^verbatim>\<open>Answer\<close> is the event with the two fields \<^verbatim>\<open>message\<close> and \<^verbatim>\<open>vote\<close> added.
  \<^verbatim>\<open>subArr[0]\<close> of an empty tag is \<^verbatim>\<open>undefined\<close>, which is not \<^verbatim>\<open>'p'\<close>.
\<close>

record answer = event +
  message :: string
  vote :: int

definition has_p_tag :: "event \<Rightarrow> bool" where
  "has_p_tag event =
     list_ex (\<lambda>subArr. case subArr of [] \<Rightarrow> False | x # _ \<Rightarrow> x = ''p'') (tags event)"

definition listAnswers :: "event list \<Rightarrow> answer list" where
  "listAnswers events =
     concat (map (\<lambda>event.
        if \<not> has_p_tag event
        then [event.extend event (answer.fields (content event) 0)]
        else []) events)"

text \<open>A reply to a topic and a comment on a reply, as \<^verbatim>\<open>createAnswer\<close> and \<^verbatim>\<open>createComment\<close> tag them.\<close>

definition example_answer :: event where
  "example_answer =
     \<lparr>kind = 42, created_at = 1,
      tags = [[''t'', ''zapstack_test''], [''e'', ''topic1'', ''wss://relay'', ''root'']],
      content = ''an answer'', id_event = ''a1'', pubkey = ''A'', sig = ''''\<rparr>"

definition example_comment :: event where
  "example_comment =
     \<lparr>kind = 42, created_at = 2,
      tags = [[''t'', ''zapstack_test''], [''e'', ''topic1'', ''wss://relay'', ''reply''],
              [''p'', ''a1'']],
      content = ''a comment'', id_event = ''c1'', pubkey = ''B'', sig = ''''\<rparr>"

section \<open>The service object and its relay\<close>

text \<open>
  \<^verbatim>\<open>NostrService\<close> holds a mutable field \<^verbatim>\<open>relay\<close>, a reference to a relay object of
  nostr-tools, and the observable \<^verbatim>\<open>connected\<close>, a \<^verbatim>\<open>BehaviorSubject\<close> that starts at
  \<^verbatim>\<open>false\<close>. The model passes the state of the service explicitly. Relay objects live in a
  store (a list, a reference is an index): \<^verbatim>\<open>relayInit(url)\<close> allocates a new object, which
  has no socket yet; \<^verbatim>\<open>connect()\<close> starts to open its socket, which later opens or fails;
  \<^verbatim>\<open>close()\<close> closes a socket that is open. A relay object is \<^emph>\<open>live\<close> while its socket is
  open. The requests that the service makes on a relay object (publish, subscribe,
  unsubscribe) and the lines it writes with \<^verbatim>\<open>console.log\<close> are recorded in order.
\<close>

datatype error = NotFound string | SyntaxError | TypeError | LibraryError string

record filter =
  kinds :: "int list"
  ids :: "string list option"
  authors :: "string list option"
  tag_t :: "string list option"
  tag_e :: "string list option"
  tag_p :: "string list option"
  limit :: "nat option"

datatype relay_request = Publish event | Subscribe filter | Unsubscribe

datatype log = Log_text string | Log_event event

datatype conn_status = Initialised | Connecting | Live | Closed | Errored

record relay_obj =
  url :: string
  status :: conn_status

record service =
  relay :: "nat option"
  relays :: "relay_obj list"
  connected :: bool
  requests :: "relay_request list"
  console :: "log list"

text \<open>
  The state of a promise when it is observed. A promise is rejected with the reason that the
  relay gives, or with the error that the code has thrown.
\<close>

datatype failure = Reason string | Thrown error

datatype 'a promise = Pending | Resolved 'a | Rejected failure

text \<open>
  The functions of nostr-tools and of the JavaScript library that build, sign and serialise
  an event are parameters of the model: \<^verbatim>\<open>finishEvent\<close> (which throws on a private key it
  cannot use), \<^verbatim>\<open>JSON.stringify\<close>, \<^verbatim>\<open>encodeURIComponent\<close> and \<^verbatim>\<open>toString\<close> of a number.
\<close>

record lib =
  finishEvent :: "event_template \<Rightarrow> string \<Rightarrow> error + event"
  JSON_stringify :: "event \<Rightarrow> string"
  encodeURIComponent :: "string \<Rightarrow> string"
  toString :: "int \<Rightarrow> string"

text \<open>\<^verbatim>\<open>this.relay.url\<close>; reading it throws a \<^verbatim>\<open>TypeError\<close> when \<^verbatim>\<open>this.relay\<close> is not set.\<close>

definition relay_url :: "service \<Rightarrow> string option" where
  "relay_url s =
     (case relay s of
        None \<Rightarrow> None
      | Some r \<Rightarrow> if r < length (relays s) then Some (url (relays s ! r)) else None)"

text \<open>\<^verbatim>\<open>Math.round(Date.now() / 1000)\<close>, for the clock \<open>now\<close> in milliseconds.\<close>

definition unix_seconds :: "int \<Rightarrow> int" where
  "unix_seconds now = (now + 500) div 1000"

subsection \<open>\<^verbatim>\<open>connect\<close>\<close>

text \<open>
  \<^verbatim>\<open>
  private async connect(url: string) {
    if (this.relay) {
      await this.relay.close()
    }
    this.relay = relayInit(url)
    this.relay.on('connect', () => {
      console.log('Connected to relay at', url)
      this.getProfile(this.keyManagementService.getPubKey()).then(res => {
        this.loggedInUser.next(res)
      })
      this.connected.next(true)
    })
    this.relay.on('disconnect', () => {
      console.log('Disconnected from relay at', url)
      this.connected.next(false);
    })
    this.relay.on('error', (reason: any) => {
      console.log('Error connecting to relay at', url)
      console.log(reason)
      this.connected.next(false);
    })
    await this.relay.connect();
  }
  \<close>
  The methods of a relay object, as nostr-tools has them: \<^verbatim>\<open>close()\<close> closes the socket of a
  relay object whose socket is open, and leaves a socket that is still connecting as it is;
  \<^verbatim>\<open>connect()\<close> starts to open the socket, and its promise is resolved when the socket has
  opened and rejected when it has failed.
\<close>

definition set_status :: "nat \<Rightarrow> conn_status \<Rightarrow> service \<Rightarrow> service" where
  "set_status r st s = s\<lparr>relays := (relays s)[r := (relays s ! r)\<lparr>status := st\<rparr>]\<rparr>"

definition has_status :: "service \<Rightarrow> nat \<Rightarrow> conn_status \<Rightarrow> bool" where
  "has_status s r st = (r < length (relays s) \<and> status (relays s ! r) = st)"

definition relay_close :: "nat \<Rightarrow> service \<Rightarrow> service" where
  "relay_close r s = (if has_status s r Live then set_status r Closed s else s)"

definition relay_connect :: "nat \<Rightarrow> service \<Rightarrow> service" where
  "relay_connect r s = (if has_status s r Initialised then set_status r Connecting s else s)"

definition relayInit :: "string \<Rightarrow> service \<Rightarrow> nat \<times> service" where
  "relayInit u s =
     (length (relays s), s\<lparr>relays := relays s @ [\<lparr>url = u, status = Initialised\<rparr>]\<rparr>)"

text \<open>
  What happens to a socket that is connecting: it opens, and the \<^verbatim>\<open>connect\<close> listener of
  the relay object runs, or it fails for a reason, and the \<^verbatim>\<open>error\<close> listener runs. Of the
  listeners, the model has the lines they write and what they send to \<^verbatim>\<open>connected\<close>; the
  profile query of the \<^verbatim>\<open>connect\<close> listener and the \<^verbatim>\<open>disconnect\<close> listener are left out.
\<close>

definition socket_open :: "nat \<Rightarrow> service \<Rightarrow> service" where
  "socket_open r s =
     (if has_status s r Connecting
      then (set_status r Live s)
             \<lparr>connected := True,
              console := console s @
                [Log_text ''Connected to relay at'', Log_text (url (relays s ! r))]\<rparr>
      else s)"

definition socket_error :: "nat \<Rightarrow> string \<Rightarrow> service \<Rightarrow> service" where
  "socket_error r reason s =
     (if has_status s r Connecting
      then (set_status r Errored s)
             \<lparr>connected := False,
              console := console s @
                [Log_text ''Error connecting to relay at'', Log_text (url (relays s ! r)),
                 Log_text reason]\<rparr>
      else s)"

text \<open>
  An \<^verbatim>\<open>async\<close> function runs without interruption up to its next \<^verbatim>\<open>await\<close>, where it is
  suspended; other code of the program runs before it is resumed. A call of \<^verbatim>\<open>connect\<close> is
  therefore a sequence of uninterrupted steps between the program points below. A call
  that awaits \<^verbatim>\<open>this.relay.connect()\<close> is resumed once the socket of that relay object has
  opened (it returns) or has failed (it is rejected).
\<close>

datatype connect_point =
  At_start string | Awaiting_close string | Awaiting_connect nat | Returned | Rejected_call

definition connect_open :: "service \<Rightarrow> string \<Rightarrow> service \<times> connect_point" where
  "connect_open s u =
     (let (r, s1) = relayInit u s;
          s2 = s1\<lparr>relay := Some r\<rparr>
      in (relay_connect r s2, Awaiting_connect r))"

fun connect_step :: "service \<Rightarrow> connect_point \<Rightarrow> service \<times> connect_point" where
  "connect_step s (At_start u) =
     (case relay s of
        Some r \<Rightarrow> (relay_close r s, Awaiting_close u)
      | None \<Rightarrow> connect_open s u)"
| "connect_step s (Awaiting_close u) = connect_open s u"
| "connect_step s (Awaiting_connect r) =
     (if has_status s r Live \<or> has_status s r Closed then (s, Returned)
      else if has_status s r Errored then (s, Rejected_call)
      else (s, Awaiting_connect r))"
| "connect_step s Returned = (s, Returned)"
| "connect_step s Rejected_call = (s, Rejected_call)"

text \<open>
  What happens to the service, one thing at a time: a new call of \<^verbatim>\<open>connect\<close> is made and
  runs to its first \<^verbatim>\<open>await\<close>; a suspended call (the calls are numbered in the order in
  which they were made) is resumed and runs to its next \<^verbatim>\<open>await\<close>; a socket opens; a socket
  fails. A run is a sequence of these.
\<close>

datatype action = Call string | Resume nat | Socket_open nat | Socket_error nat string

fun act :: "service \<times> connect_point list \<Rightarrow> action \<Rightarrow> service \<times> connect_point list" where
  "act (s, ps) (Call u) = (let (s', p) = connect_step s (At_start u) in (s', ps @ [p]))"
| "act (s, ps) (Resume i) =
     (if i < length ps
      then (let (s', p) = connect_step s (ps ! i) in (s', ps[i := p]))
      else (s, ps))"
| "act (s, ps) (Socket_open r) = (socket_open r s, ps)"
| "act (s, ps) (Socket_error r reason) = (socket_error r reason s, ps)"

definition run_actions :: "service \<Rightarrow> action list \<Rightarrow> service \<times> connect_point list" where
  "run_actions s as = foldl act (s, []) as"

definition live_relays :: "service \<Rightarrow> nat list" where
  "live_relays s = filter (\<lambda>r. status (relays s ! r) = Live) [0..<length (relays s)]"

text \<open>The service before its constructor has run: no relay object exists.\<close>

definition new_service :: service where
  "new_service =
     \<lparr>relay = None, relays = [], connected = False, requests = [], console = []\<rparr>"

subsection \<open>\<^verbatim>\<open>publishEvent\<close> and \<^verbatim>\<open>deleteEvents\<close>\<close>

text \<open>
  The relay answers a published event with \<^verbatim>\<open>ok\<close> or with \<^verbatim>\<open>failed\<close> and a reason; the
  parameter \<open>ack\<close> is its answer, \<open>None\<close> as long as it has not answered.
  \<^verbatim>\<open>
  private publishEvent(signedEvent: Event): Promise<string> {
    return new Promise((resolve, reject) => {
      let pub = this.relay.publish(signedEvent);
      pub.on('ok', () => { console.log('event sucessfully published');
                           console.log(signedEvent); resolve(signedEvent.id); });
      pub.on('failed', (reason: any) => { console.log('event failed');
                                          console.log(reason); reject(reason); });
    });
  }
  \<close>
\<close>

datatype relay_ack = Ok | Failed string

definition publishEvent :: "service \<Rightarrow> event \<Rightarrow> relay_ack option \<Rightarrow> string promise \<times> service" where
  "publishEvent s signedEvent ack =
     (case relay s of
        None \<Rightarrow> (Rejected (Thrown TypeError), s)
      | Some r \<Rightarrow>
          let s1 = s\<lparr>requests := requests s @ [Publish signedEvent]\<rparr> in
          (case ack of
             None \<Rightarrow> (Pending, s1)
           | Some Ok \<Rightarrow>
               (Resolved (id_event signedEvent),
                s1\<lparr>console := console s1 @
                   [Log_text ''event sucessfully published'', Log_event signedEvent]\<rparr>)
           | Some (Failed reason) \<Rightarrow>
               (Rejected (Reason reason),
                s1\<lparr>console := console s1 @ [Log_text ''event failed'', Log_text reason]\<rparr>)))"

text \<open>
  \<^verbatim>\<open>
  async deleteEvents(eventId: string): Promise<void> {
    const event: EventTemplate = {
      kind: 5, created_at: Math.round(Date.now() / 1000),
      tags: [ ['t', NostrService.ZAPSTACK_TAG], ['e', eventId] ],
      content: ""
    }
    const signedEvent = finishEvent(event, this.keyManagementService.getPrivKey())
    const pub = this.relay.publish(signedEvent)
    pub.on('ok', () => { console.log('deletion event sucessfully submitted') })
    pub.on('failed', (reason: any) => { console.log('deletion event failed')
                                        console.log(reason) })
  }
  \<close>
  The function has no \<^verbatim>\<open>await\<close>: its promise is resolved when the body has run, before
  the relay answers.
\<close>

definition ZAPSTACK_TAG :: string where
  "ZAPSTACK_TAG = ''zapstack_test''"

definition deletion_template :: "int \<Rightarrow> string \<Rightarrow> event_template" where
  "deletion_template now eventId =
     \<lparr>kind = 5, created_at = unix_seconds now,
      tags = [[''t'', ZAPSTACK_TAG], [''e'', eventId]], content = ''''\<rparr>"

definition deleteEvents ::
  "lib \<Rightarrow> service \<Rightarrow> string \<Rightarrow> int \<Rightarrow> string \<Rightarrow> relay_ack option \<Rightarrow> unit promise \<times> service" where
  "deleteEvents L s privKey now eventId ack =
     (case finishEvent L (deletion_template now eventId) privKey of
        Inl err \<Rightarrow> (Rejected (Thrown err), s)
      | Inr signedEvent \<Rightarrow>
          (case relay s of
             None \<Rightarrow> (Rejected (Thrown TypeError), s)
           | Some r \<Rightarrow>
               let s1 = s\<lparr>requests := requests s @ [Publish signedEvent]\<rparr> in
               (case ack of
                  None \<Rightarrow> (Resolved (), s1)
                | Some Ok \<Rightarrow>
                    (Resolved (),
                     s1\<lparr>console := console s1 @
                        [Log_text ''deletion event sucessfully submitted'']\<rparr>)
                | Some (Failed reason) \<Rightarrow>
                    (Resolved (),
                     s1\<lparr>console := console s1 @
                        [Log_text ''deletion event failed'', Log_text reason]\<rparr>))))"

subsection \<open>\<^verbatim>\<open>getZapRequest\<close>\<close>

text \<open>
  \<^verbatim>\<open>
  getZapRequest(answerId: string, receiverPubKey: string, amount: number) {
    const event: EventTemplate = {
      kind: 9734, created_at: Math.round(Date.now() / 1000),
      tags: [ ['e', answerId], ['p', receiverPubKey],
              ['amount', amount.toString()], ['relays', this.relay.url] ],
      content: '',
    }
    const finishedEvent = finishEvent(event, this.keyManagementService.getPrivKey());
    const eventString = JSON.stringify(finishedEvent)
    return encodeURIComponent(eventString);
  }
  \<close>
\<close>

definition zap_request_template :: "lib \<Rightarrow> int \<Rightarrow> string \<Rightarrow> string \<Rightarrow> int \<Rightarrow> string \<Rightarrow> event_template" where
  "zap_request_template L now answerId receiverPubKey amount u =
     \<lparr>kind = 9734, created_at = unix_seconds now,
      tags = [[''e'', answerId], [''p'', receiverPubKey],
              [''amount'', toString L amount], [''relays'', u]],
      content = ''''\<rparr>"

definition getZapRequest ::
  "lib \<Rightarrow> service \<Rightarrow> string \<Rightarrow> int \<Rightarrow> string \<Rightarrow> string \<Rightarrow> int \<Rightarrow> (error + string) \<times> service" where
  "getZapRequest L s privKey now answerId receiverPubKey amount =
     (case relay_url s of
        None \<Rightarrow> (Inl TypeError, s)
      | Some u \<Rightarrow>
          (case finishEvent L (zap_request_template L now answerId receiverPubKey amount u) privKey of
             Inl err \<Rightarrow> (Inl err, s)
           | Inr finishedEvent \<Rightarrow>
               (Inr (encodeURIComponent L (JSON_stringify L finishedEvent)), s)))"

subsection \<open>\<^verbatim>\<open>waitForZap\<close>\<close>

text \<open>
  \<^verbatim>\<open>
  async waitForZap(answerId: string, invoice: string): Promise<void> {
    const filter: Filter = { kinds: [9735], '#e': [answerId] };
    return new Promise((resolve) => {
      const sub = this.relay.sub([filter]);
      sub.on('event', (event: Event) => {
        const bolt11Tag = this.getTag(event.tags, 'bolt11')
        if (bolt11Tag && bolt11Tag == invoice) {
          console.log('we got the event we wanted:', event)
          resolve();
        }
      })
    })
  }
  \<close>
  The parameter \<open>events\<close> is the sequence of receipts that the subscription has delivered so
  far; the result is the state of the promise and of the service after them. Resolving a
  promise that is resolved already changes nothing. A string is truthy when it is not empty.
\<close>

definition zap_filter :: "string \<Rightarrow> filter" where
  "zap_filter answerId =
     \<lparr>kinds = [9735], ids = None, authors = None, tag_t = None, tag_e = Some [answerId],
      tag_p = None, limit = None\<rparr>"

definition resolve :: "unit promise \<Rightarrow> unit promise" where
  "resolve p = (case p of Pending \<Rightarrow> Resolved () | _ \<Rightarrow> p)"

definition on_zap_event :: "string \<Rightarrow> unit promise \<times> service \<Rightarrow> event \<Rightarrow> unit promise \<times> service" where
  "on_zap_event invoice ps event =
     (let bolt11Tag = getTag (tags event) ''bolt11'' in
      if (case bolt11Tag of None \<Rightarrow> False | Some b \<Rightarrow> b \<noteq> '''') \<and> bolt11Tag = Some invoice
      then (resolve (fst ps),
            (snd ps)\<lparr>console := console (snd ps) @
               [Log_text ''we got the event we wanted:'', Log_event event]\<rparr>)
      else ps)"

definition waitForZap :: "service \<Rightarrow> string \<Rightarrow> string \<Rightarrow> event list \<Rightarrow> unit promise \<times> service" where
  "waitForZap s answerId invoice events =
     (case relay s of
        None \<Rightarrow> (Rejected (Thrown TypeError), s)
      | Some r \<Rightarrow>
          foldl (on_zap_event invoice)
            (Pending, s\<lparr>requests := requests s @ [Subscribe (zap_filter answerId)]\<rparr>) events)"

subsection \<open>Examples\<close>

text \<open>
  The service once the call of \<^verbatim>\<open>connectRelay\<close> in its constructor has returned: the relay
  object for \<^verbatim>\<open>wss://relay.damus.io\<close> is the current one and its socket is open.
\<close>

definition connected_service :: service where
  "connected_service =
     \<lparr>relay = Some 0,
      relays = [\<lparr>url = ''wss://relay.damus.io'', status = Live\<rparr>],
      connected = True, requests = [],
      console = [Log_text ''Connected to relay at'', Log_text ''wss://relay.damus.io'']\<rparr>"

text \<open>
  Two calls \<^verbatim>\<open>connect(a)\<close> and \<^verbatim>\<open>connect(b)\<close>, made one right after the other without
  waiting for the first: each call runs to its first \<^verbatim>\<open>await\<close> when it is made, the two
  are resumed in the order in which they were suspended, then the two sockets open and the
  two calls return. In the second run the call \<^verbatim>\<open>connect(b)\<close> is made when \<^verbatim>\<open>connect(a)\<close>
  has returned. In the third run the socket for \<open>a\<close> fails.
\<close>

definition overlapping_calls :: "string \<Rightarrow> string \<Rightarrow> action list" where
  "overlapping_calls a b =
     [Call a, Call b, Resume 0, Resume 1, Socket_open 1, Socket_open 2, Resume 0, Resume 1]"

definition sequential_calls :: "string \<Rightarrow> string \<Rightarrow> action list" where
  "sequential_calls a b =
     [Call a, Resume 0, Socket_open 1, Resume 0, Call b, Resume 1, Socket_open 2, Resume 1]"

definition failing_call :: "string \<Rightarrow> string \<Rightarrow> action list" where
  "failing_call a reason = [Call a, Resume 0, Socket_error 1 reason, Resume 0]"

text \<open>A receipt reaches the wait when its \<^verbatim>\<open>bolt11\<close> tag is the invoice, which is not empty.\<close>

definition zap_match :: "string \<Rightarrow> event \<Rightarrow> bool" where
  "zap_match invoice e = (invoice \<noteq> '''' \<and> getTag (tags e) ''bolt11'' = Some invoice)"

definition example_receipt :: "string \<Rightarrow> event" where
  "example_receipt b =
     \<lparr>kind = 9735, created_at = 5, tags = [[''e'', ''answer1''], [''bolt11'', b]],
      content = '''', id_event = ''r'' @ b, pubkey = ''Z'', sig = ''''\<rparr>"

text \<open>
  A stand-in for the library in the examples: it signs every template with the same id and
  signature and throws on the empty private key, it writes an integer in decimal digits, and
  its serialisation and encoding are the identity on the id of the event.
\<close>

function nat_decimal :: "nat \<Rightarrow> string" where
  "nat_decimal n =
     (if n < 10 then [char_of (48 + n)]
      else nat_decimal (n div 10) @ [char_of (48 + n mod 10)])"
  by pat_completeness auto
termination
  by (relation "measure (\<lambda>n. n)") auto

definition int_decimal :: "int \<Rightarrow> string" where
  "int_decimal i = (if i < 0 then ''-'' @ nat_decimal (nat (- i)) else nat_decimal (nat i))"

definition example_lib :: lib where
  "example_lib =
     \<lparr>finishEvent = (\<lambda>t k. if k = '''' then Inl (LibraryError ''bad key'')
                            else Inr (event_template.extend t (event.fields ''id1'' k ''sig1''))),
      JSON_stringify = (\<lambda>e. id_event e),
      encodeURIComponent = (\<lambda>x. x),
      toString = int_decimal\<rparr>"

section \<open>JSON values and the functions of the JavaScript library\<close>

text \<open>
  The content of an event and the \<^verbatim>\<open>description\<close> tag of a receipt are JSON texts that the
  service reads with \<^verbatim>\<open>JSON.parse\<close>; what it gets has no static type. A parsed value is a
  \<open>json\<close>; \<^verbatim>\<open>undefined\<close> is \<open>None\<close> of \<open>json option\<close>. The members of an object are an
  association list with distinct keys.
\<close>

datatype json =
  JNull | JBool bool | JNum rat | JStr string | JArr "json list" | JObj "(string \<times> json) list"

text \<open>
  A value of the number type of JavaScript: a double that is finite is the rational that it
  denotes (the two zeros are not told apart), and there are \<^verbatim>\<open>NaN\<close> and the two
  infinities.
\<close>

datatype number = Finite rat | NaN | PosInf | NegInf

text \<open>
  \<^verbatim>\<open>JSON.parse\<close> (\<open>None\<close> when it throws a \<^verbatim>\<open>SyntaxError\<close>) and \<^verbatim>\<open>Number\<close> are functions of
  the JavaScript library, and \<^verbatim>\<open>/\<close> and \<^verbatim>\<open>+\<close> on numbers are the division and the
  addition of IEEE doubles, which round their results. All four are parameters of the
  model, like the functions of nostr-tools.
\<close>

record js =
  JSON_parse :: "string \<Rightarrow> json option"
  Number :: "json \<Rightarrow> error + number"
  number_divide :: "number \<Rightarrow> number \<Rightarrow> number"
  number_add :: "number \<Rightarrow> number \<Rightarrow> number"

text \<open>
  Reading a property of a parsed value. \<^verbatim>\<open>v.name\<close>, for the names \<^verbatim>\<open>name\<close>, \<^verbatim>\<open>about\<close>
  and \<^verbatim>\<open>tags\<close> that the service reads (no array, string, number or boolean has a property
  of such a name): reading a property of \<^verbatim>\<open>null\<close> throws a \<^verbatim>\<open>TypeError\<close>.
\<close>

definition read_property :: "json \<Rightarrow> string \<Rightarrow> error + json option" where
  "read_property v name =
     (case v of
        JNull \<Rightarrow> Inl TypeError
      | JObj ms \<Rightarrow> Inr (map_of ms name)
      | _ \<Rightarrow> Inr None)"

text \<open>
  \<^verbatim>\<open>v[0]\<close> and \<^verbatim>\<open>v[1]\<close>: an element of an array, a character of a string, the member
  \<^verbatim>\<open>"0"\<close> or \<^verbatim>\<open>"1"\<close> of an object.
\<close>

definition index_key :: "nat \<Rightarrow> string" where
  "index_key i = (if i = 0 then ''0'' else ''1'')"

definition read_index :: "json \<Rightarrow> nat \<Rightarrow> error + json option" where
  "read_index v i =
     (case v of
        JNull \<Rightarrow> Inl TypeError
      | JArr xs \<Rightarrow> Inr (if i < length xs then Some (xs ! i) else None)
      | JStr s \<Rightarrow> Inr (if i < length s then Some (JStr [s ! i]) else None)
      | JObj ms \<Rightarrow> Inr (map_of ms (index_key i))
      | _ \<Rightarrow> Inr None)"

text \<open>Truthiness: \<^verbatim>\<open>undefined\<close>, \<^verbatim>\<open>null\<close>, \<^verbatim>\<open>false\<close>, \<open>0\<close> and the empty string are falsy.\<close>

definition truthy :: "json option \<Rightarrow> bool" where
  "truthy v =
     (case v of
        None \<Rightarrow> False
      | Some JNull \<Rightarrow> False
      | Some (JBool b) \<Rightarrow> b
      | Some (JNum n) \<Rightarrow> n \<noteq> 0
      | Some (JStr s) \<Rightarrow> s \<noteq> ''''
      | Some _ \<Rightarrow> True)"

text \<open>
  \<^verbatim>\<open>getTag\<close> applied to a value without static type, as in
  \<^verbatim>\<open>this.getTag(zapRequest.tags, 'amount')\<close>: \<^verbatim>\<open>tags.find\<close> throws a \<^verbatim>\<open>TypeError\<close> unless
  \<^verbatim>\<open>tags\<close> is an array, and the callback \<^verbatim>\<open>(t) => t[0] === tagName\<close> throws on an element
  that is \<^verbatim>\<open>null\<close>. The element that is found is an array, an object or a string of one
  character, so it is truthy.
\<close>

fun find_tag :: "string \<Rightarrow> json list \<Rightarrow> error + json option" where
  "find_tag tagName [] = Inr None"
| "find_tag tagName (t # ts) =
     (case read_index t 0 of
        Inl err \<Rightarrow> Inl err
      | Inr t0 \<Rightarrow> if t0 = Some (JStr tagName) then Inr (Some t) else find_tag tagName ts)"

definition getTag_any :: "json option \<Rightarrow> string \<Rightarrow> error + json option" where
  "getTag_any tgs tagName =
     (case tgs of
        Some (JArr ts) \<Rightarrow>
          (case find_tag tagName ts of
             Inl err \<Rightarrow> Inl err
           | Inr None \<Rightarrow> Inr None
           | Inr (Some tag) \<Rightarrow> read_index tag 1)
      | _ \<Rightarrow> Inl TypeError)"

text \<open>The tags of an event as a parsed value.\<close>

definition tags_json :: "string list list \<Rightarrow> json" where
  "tags_json tgs = JArr (map (\<lambda>t. JArr (map JStr t)) tgs)"

subsection \<open>A parser for JSON texts\<close>

text \<open>
  An instance of \<^verbatim>\<open>JSON.parse\<close> for the examples, after the grammar of ECMA-404: a scanner
  that turns the text into tokens and a parser with an explicit stack of the arrays and
  objects that are open. A text is a string of bytes; the escape \<^verbatim>\<open>\uXXXX\<close> stands for the
  UTF-8 bytes of its code unit. Of two members with the same key the later one remains.
\<close>

datatype token =
  T_lbrace | T_rbrace | T_lbrack | T_rbrack | T_colon | T_comma
| T_str string | T_num rat | T_true | T_false | T_null

definition char_code :: "char \<Rightarrow> int" where
  "char_code c = of_char c"

definition is_digit :: "char \<Rightarrow> bool" where
  "is_digit c = (48 \<le> char_code c \<and> char_code c \<le> 57)"

definition digit_value :: "char \<Rightarrow> int" where
  "digit_value c = char_code c - 48"

definition digits_value :: "string \<Rightarrow> int" where
  "digits_value ds = foldl (\<lambda>n c. 10 * n + digit_value c) 0 ds"

definition hex_value :: "char \<Rightarrow> int option" where
  "hex_value c =
     (if is_digit c then Some (digit_value c)
      else if 97 \<le> char_code c \<and> char_code c \<le> 102 then Some (char_code c - 87)
      else if 65 \<le> char_code c \<and> char_code c \<le> 70 then Some (char_code c - 55)
      else None)"

definition utf8 :: "int \<Rightarrow> string" where
  "utf8 n =
     (if n < 128 then [char_of n]
      else if n < 2048 then [char_of (192 + n div 64), char_of (128 + n mod 64)]
      else [char_of (224 + n div 4096), char_of (128 + (n div 64) mod 64),
            char_of (128 + n mod 64)])"

text \<open>
  The value of a number literal:
  \<^verbatim>\<open>-? (0 | [1-9][0-9]*) (. [0-9]+)? ([eE] [+-]? [0-9]+)?\<close>, or \<open>None\<close>.
\<close>

definition exponent_value :: "string \<Rightarrow> int option" where
  "exponent_value s =
     (case s of
        [] \<Rightarrow> Some 0
      | c # r \<Rightarrow>
          if c = CHR ''e'' \<or> c = CHR ''E'' then
            (let (neg, ds) =
                   (case r of
                      [] \<Rightarrow> (False, [])
                    | d # r' \<Rightarrow> if d = CHR ''-'' then (True, r')
                                else if d = CHR ''+'' then (False, r') else (False, r))
             in if ds \<noteq> [] \<and> list_all is_digit ds
                then Some (if neg then - digits_value ds else digits_value ds)
                else None)
          else None)"

definition number_value :: "string \<Rightarrow> rat option" where
  "number_value s =
     (let (neg, s1) = (case s of c # r \<Rightarrow> if c = CHR ''-'' then (True, r) else (False, s)
                       | [] \<Rightarrow> (False, s));
          ip = takeWhile is_digit s1;
          s2 = dropWhile is_digit s1;
          (fp, s3) = (case s2 of c # r \<Rightarrow> if c = CHR ''.''
                                  then (Some (takeWhile is_digit r), dropWhile is_digit r)
                                  else (None, s2)
                       | [] \<Rightarrow> (None, s2))
      in if ip = [] \<or> (length ip > 1 \<and> hd ip = CHR ''0'') \<or> fp = Some [] then None
         else
           (case exponent_value s3 of
              None \<Rightarrow> None
            | Some ex \<Rightarrow>
                let fd = (case fp of None \<Rightarrow> [] | Some ds \<Rightarrow> ds);
                    m = of_int (digits_value (ip @ fd)) / 10 ^ length fd;
                    v = (if ex < 0 then m / 10 ^ nat (- ex) else m * 10 ^ nat ex)
                in Some (if neg then - v else v)))"

datatype scan_mode =
  S_start
| S_str string
| S_esc string
| S_uni string "int list"
| S_word string token
| S_num string

definition is_space :: "char \<Rightarrow> bool" where
  "is_space c = (c = CHR '' '' \<or> c = CHR 0x09 \<or> c = CHR 0x0A \<or> c = CHR 0x0D)"

definition is_number_char :: "char \<Rightarrow> bool" where
  "is_number_char c =
     (is_digit c \<or> c = CHR ''-'' \<or> c = CHR ''+'' \<or> c = CHR ''.'' \<or> c = CHR ''e'' \<or> c = CHR ''E'')"

text \<open>The scanner between two tokens; the tokens are collected in reverse.\<close>

definition scan_start :: "token list \<Rightarrow> char \<Rightarrow> (scan_mode \<times> token list) option" where
  "scan_start acc c =
     (if is_space c then Some (S_start, acc)
      else if c = CHR ''{'' then Some (S_start, T_lbrace # acc)
      else if c = CHR ''}'' then Some (S_start, T_rbrace # acc)
      else if c = CHR ''['' then Some (S_start, T_lbrack # acc)
      else if c = CHR '']'' then Some (S_start, T_rbrack # acc)
      else if c = CHR '':'' then Some (S_start, T_colon # acc)
      else if c = CHR '','' then Some (S_start, T_comma # acc)
      else if c = CHR 0x22 then Some (S_str [], acc)
      else if c = CHR ''t'' then Some (S_word ''rue'' T_true, acc)
      else if c = CHR ''f'' then Some (S_word ''alse'' T_false, acc)
      else if c = CHR ''n'' then Some (S_word ''ull'' T_null, acc)
      else if is_digit c \<or> c = CHR ''-'' then Some (S_num [c], acc)
      else None)"

definition unescape :: "char \<Rightarrow> char option" where
  "unescape c =
     (if c = CHR 0x22 \<or> c = CHR 0x5C \<or> c = CHR ''/'' then Some c
      else if c = CHR ''b'' then Some (CHR 0x08)
      else if c = CHR ''f'' then Some (CHR 0x0C)
      else if c = CHR ''n'' then Some (CHR 0x0A)
      else if c = CHR ''r'' then Some (CHR 0x0D)
      else if c = CHR ''t'' then Some (CHR 0x09)
      else None)"

fun scan_step :: "scan_mode \<times> token list \<Rightarrow> char \<Rightarrow> (scan_mode \<times> token list) option" where
  "scan_step (S_start, acc) c = scan_start acc c"
| "scan_step (S_str s, acc) c =
     (if c = CHR 0x22 then Some (S_start, T_str (rev s) # acc)
      else if c = CHR 0x5C then Some (S_esc s, acc)
      else if char_code c < 32 then None
      else Some (S_str (c # s), acc))"
| "scan_step (S_esc s, acc) c =
     (if c = CHR ''u'' then Some (S_uni s [], acc)
      else (case unescape c of None \<Rightarrow> None | Some d \<Rightarrow> Some (S_str (d # s), acc)))"
| "scan_step (S_uni s hs, acc) c =
     (case hex_value c of
        None \<Rightarrow> None
      | Some h \<Rightarrow>
          if length hs = 3
          then Some (S_str (rev (utf8 (foldl (\<lambda>n d. 16 * n + d) 0 (hs @ [h]))) @ s), acc)
          else Some (S_uni s (hs @ [h]), acc))"
| "scan_step (S_word w tok, acc) c =
     (case w of
        [] \<Rightarrow> None
      | x # xs \<Rightarrow>
          if c \<noteq> x then None
          else if xs = [] then Some (S_start, tok # acc)
          else Some (S_word xs tok, acc))"
| "scan_step (S_num ds, acc) c =
     (if is_number_char c then Some (S_num (c # ds), acc)
      else (case number_value (rev ds) of
              None \<Rightarrow> None
            | Some n \<Rightarrow> scan_start (T_num n # acc) c))"

fun scan_run :: "scan_mode \<times> token list \<Rightarrow> string \<Rightarrow> (scan_mode \<times> token list) option" where
  "scan_run st [] = Some st"
| "scan_run st (c # cs) =
     (case scan_step st c of None \<Rightarrow> None | Some st' \<Rightarrow> scan_run st' cs)"

definition scan :: "string \<Rightarrow> token list option" where
  "scan s =
     (case scan_run (S_start, []) s of
        Some (S_start, acc) \<Rightarrow> Some (rev acc)
      | Some (S_num ds, acc) \<Rightarrow>
          (case number_value (rev ds) of
             None \<Rightarrow> None
           | Some n \<Rightarrow> Some (rev (T_num n # acc)))
      | _ \<Rightarrow> None)"

text \<open>
  The parser. A frame of the stack is an open array with its elements so far, an open object
  with its members so far, or an open object with the key whose value is being read.
\<close>

datatype frame =
  In_array "json list"
| In_object "(string \<times> json) list"
| In_member "(string \<times> json) list" string

datatype expect =
  E_value | E_first_element | E_first_key | E_key | E_colon | E_after | E_done json

definition put_value :: "json \<Rightarrow> frame list \<Rightarrow> (expect \<times> frame list) option" where
  "put_value v st =
     (case st of
        [] \<Rightarrow> Some (E_done v, [])
      | In_array es # r \<Rightarrow> Some (E_after, In_array (es @ [v]) # r)
      | In_member ms k # r \<Rightarrow> Some (E_after, In_object (AList.update k v ms) # r)
      | In_object ms # r \<Rightarrow> None)"

definition begin_value :: "token \<Rightarrow> frame list \<Rightarrow> (expect \<times> frame list) option" where
  "begin_value t st =
     (case t of
        T_lbrack \<Rightarrow> Some (E_first_element, In_array [] # st)
      | T_lbrace \<Rightarrow> Some (E_first_key, In_object [] # st)
      | T_str s \<Rightarrow> put_value (JStr s) st
      | T_num n \<Rightarrow> put_value (JNum n) st
      | T_true \<Rightarrow> put_value (JBool True) st
      | T_false \<Rightarrow> put_value (JBool False) st
      | T_null \<Rightarrow> put_value JNull st
      | _ \<Rightarrow> None)"

definition end_array :: "frame list \<Rightarrow> (expect \<times> frame list) option" where
  "end_array st = (case st of In_array es # r \<Rightarrow> put_value (JArr es) r | _ \<Rightarrow> None)"

definition end_object :: "frame list \<Rightarrow> (expect \<times> frame list) option" where
  "end_object st = (case st of In_object ms # r \<Rightarrow> put_value (JObj ms) r | _ \<Rightarrow> None)"

definition begin_member :: "token \<Rightarrow> frame list \<Rightarrow> (expect \<times> frame list) option" where
  "begin_member t st =
     (case (t, st) of
        (T_str k, In_object ms # r) \<Rightarrow> Some (E_colon, In_member ms k # r)
      | _ \<Rightarrow> None)"

definition parse_step :: "expect \<times> frame list \<Rightarrow> token \<Rightarrow> (expect \<times> frame list) option" where
  "parse_step est t =
     (case est of
        (E_value, st) \<Rightarrow> begin_value t st
      | (E_first_element, st) \<Rightarrow> if t = T_rbrack then end_array st else begin_value t st
      | (E_first_key, st) \<Rightarrow> if t = T_rbrace then end_object st else begin_member t st
      | (E_key, st) \<Rightarrow> begin_member t st
      | (E_colon, st) \<Rightarrow> if t = T_colon then Some (E_value, st) else None
      | (E_after, st) \<Rightarrow>
          if t = T_comma then
            (case st of
               In_array es # r \<Rightarrow> Some (E_value, st)
             | In_object ms # r \<Rightarrow> Some (E_key, st)
             | _ \<Rightarrow> None)
          else if t = T_rbrack then end_array st
          else if t = T_rbrace then end_object st
          else None
      | (E_done v, st) \<Rightarrow> None)"

fun parse_run :: "expect \<times> frame list \<Rightarrow> token list \<Rightarrow> (expect \<times> frame list) option" where
  "parse_run est [] = Some est"
| "parse_run est (t # ts) =
     (case parse_step est t of None \<Rightarrow> None | Some est' \<Rightarrow> parse_run est' ts)"

definition parse_json :: "string \<Rightarrow> json option" where
  "parse_json s =
     (case scan s of
        None \<Rightarrow> None
      | Some ts \<Rightarrow>
          (case parse_run (E_value, []) ts of
             Some (E_done v, []) \<Rightarrow> Some v
           | _ \<Rightarrow> None))"

text \<open>
  An instance of \<^verbatim>\<open>Number\<close> for the examples: it is \<^verbatim>\<open>Number\<close> on the strings of decimal
  digits, on the empty string, on numbers, booleans and \<^verbatim>\<open>null\<close>.
\<close>

definition decimal_number :: "json \<Rightarrow> error + number" where
  "decimal_number v =
     (case v of
        JStr s \<Rightarrow> Inr (if list_all is_digit s then Finite (of_int (digits_value s)) else NaN)
      | JNum n \<Rightarrow> Inr (Finite n)
      | JBool b \<Rightarrow> Inr (Finite (if b then 1 else 0))
      | JNull \<Rightarrow> Inr (Finite 0)
      | _ \<Rightarrow> Inr NaN)"

text \<open>
  Division and addition for the examples: the exact quotient and sum of finite numbers,
  which are the quotient and the sum of the doubles wherever the exact result is a double
  (as for 3000 / 1000, 5000 / 1000 and 0 + 3 + 0 + 5 below), with the rules of the doubles
  for \<^verbatim>\<open>NaN\<close>, the infinities and the division by zero.
\<close>

definition exact_divide :: "number \<Rightarrow> number \<Rightarrow> number" where
  "exact_divide a b =
     (case (a, b) of
        (Finite x, Finite y) \<Rightarrow>
          if y \<noteq> 0 then Finite (x / y)
          else if x > 0 then PosInf else if x < 0 then NegInf else NaN
      | (Finite x, PosInf) \<Rightarrow> Finite 0
      | (Finite x, NegInf) \<Rightarrow> Finite 0
      | (PosInf, Finite y) \<Rightarrow> if y < 0 then NegInf else PosInf
      | (NegInf, Finite y) \<Rightarrow> if y < 0 then PosInf else NegInf
      | _ \<Rightarrow> NaN)"

definition exact_add :: "number \<Rightarrow> number \<Rightarrow> number" where
  "exact_add a b =
     (case (a, b) of
        (Finite x, Finite y) \<Rightarrow> Finite (x + y)
      | (NaN, _) \<Rightarrow> NaN
      | (_, NaN) \<Rightarrow> NaN
      | (PosInf, NegInf) \<Rightarrow> NaN
      | (NegInf, PosInf) \<Rightarrow> NaN
      | (PosInf, _) \<Rightarrow> PosInf
      | (_, PosInf) \<Rightarrow> PosInf
      | (NegInf, _) \<Rightarrow> NegInf
      | (_, NegInf) \<Rightarrow> NegInf)"

definition example_js :: js where
  "example_js =
     \<lparr>JSON_parse = parse_json, Number = decimal_number,
      number_divide = exact_divide, number_add = exact_add\<rparr>"

section \<open>Payment total: \<^verbatim>\<open>getZaps\<close>\<close>

text \<open>
  \<^verbatim>\<open>
  const zapSum = events.flatMap(e => {
    const desc = this.getTag(e.tags, 'description')
    if (desc) {
      const zapRequest = JSON.parse(desc)
      const amount = this.getTag(zapRequest.tags, 'amount')
      return amount ? Number(amount) / 1000 : 0
    }
    return 0
  }).reduce((accumulator, currentValue) => accumulator + currentValue, 0);
  return zapSum;
  \<close>
  The parameter \<open>events\<close> is the array that \<^verbatim>\<open>await this.relay.list([filter])\<close> delivers.
  Nothing catches what the callback throws: the call of \<^verbatim>\<open>getZaps\<close> fails with the first
  error. The quotient and the sum are those of the doubles of JavaScript.
\<close>

definition zap_amount :: "js \<Rightarrow> event \<Rightarrow> error + number" where
  "zap_amount J e =
     (case getTag (tags e) ''description'' of
        None \<Rightarrow> Inr (Finite 0)
      | Some desc \<Rightarrow>
          if desc = '''' then Inr (Finite 0)
          else
            (case JSON_parse J desc of
               None \<Rightarrow> Inl SyntaxError
             | Some zapRequest \<Rightarrow>
                 (case read_property zapRequest ''tags'' of
                    Inl err \<Rightarrow> Inl err
                  | Inr tgs \<Rightarrow>
                      (case getTag_any tgs ''amount'' of
                         Inl err \<Rightarrow> Inl err
                       | Inr None \<Rightarrow> Inr (Finite 0)
                       | Inr (Some amount) \<Rightarrow>
                           if truthy (Some amount)
                           then (case Number J amount of
                                   Inl err \<Rightarrow> Inl err
                                 | Inr n \<Rightarrow> Inr (number_divide J n (Finite 1000)))
                           else Inr (Finite 0)))))"

fun zap_amounts :: "js \<Rightarrow> event list \<Rightarrow> error + number list" where
  "zap_amounts J [] = Inr []"
| "zap_amounts J (e # es) =
     (case zap_amount J e of
        Inl err \<Rightarrow> Inl err
      | Inr a \<Rightarrow> (case zap_amounts J es of Inl err \<Rightarrow> Inl err | Inr as \<Rightarrow> Inr (a # as)))"

definition getZaps :: "js \<Rightarrow> event list \<Rightarrow> error + number" where
  "getZaps J events =
     (case zap_amounts J events of
        Inl err \<Rightarrow> Inl err
      | Inr as \<Rightarrow> Inr (foldl (number_add J) (Finite 0) as))"

text \<open>
  Receipts for the examples: one whose description is the payment request with the given
  amount, one whose description is no JSON text, one without a description, and one whose
  description is the JSON text \<^verbatim>\<open>null\<close>.
\<close>

definition example_request_text :: "string \<Rightarrow> string" where
  "example_request_text amt =
     ''{\"kind\":9734,\"content\":\"\",\"tags\":[[\"e\",\"answer1\"],[\"amount\",\"''
       @ amt @ ''\"]]}''"

definition example_zap :: "string \<Rightarrow> event" where
  "example_zap amt =
     \<lparr>kind = 9735, created_at = 7,
      tags = [[''e'', ''answer1''], [''bolt11'', ''lnbc1''],
              [''description'', example_request_text amt]],
      content = '''', id_event = ''z'' @ amt, pubkey = ''Z'', sig = ''''\<rparr>"

definition example_zap_unparseable :: event where
  "example_zap_unparseable =
     \<lparr>kind = 9735, created_at = 8,
      tags = [[''e'', ''answer1''], [''description'', ''not json'']],
      content = '''', id_event = ''z2'', pubkey = ''Z'', sig = ''''\<rparr>"

definition example_zap_null :: event where
  "example_zap_null =
     \<lparr>kind = 9735, created_at = 8,
      tags = [[''e'', ''answer1''], [''description'', ''null'']],
      content = '''', id_event = ''z4'', pubkey = ''Z'', sig = ''''\<rparr>"

definition example_zap_missing :: event where
  "example_zap_missing =
     \<lparr>kind = 9735, created_at = 9, tags = [[''e'', ''answer1'']],
      content = '''', id_event = ''z3'', pubkey = ''Z'', sig = ''''\<rparr>"

section \<open>Single results: \<^verbatim>\<open>getQuestion\<close>, \<^verbatim>\<open>getAnswer\<close>, \<^verbatim>\<open>getProfile\<close>\<close>

text \<open>
  \<^verbatim>\<open>
  const event: Event | null = await this.relay.get(filter)
  if (!event) {
    throw new Error(`Question with id ${questionId} not found`);
  }
  const question: Question = {
    id: event.id,
    pubkey: event.pubkey,
    title: JSON.parse(event.content).name,
    message: JSON.parse(event.content).about,
  }
  return question;
  \<close>
  The parameter \<open>got\<close> is what \<^verbatim>\<open>await this.relay.get(filter)\<close> delivers, \<open>None\<close> for
  \<^verbatim>\<open>null\<close>. The fields \<^verbatim>\<open>id\<close>, \<^verbatim>\<open>pubkey\<close> and \<^verbatim>\<open>message\<close> of a \<^verbatim>\<open>Question\<close> are called
  \<open>question_id\<close>, \<open>question_pubkey\<close> and \<open>question_message\<close> here. The title and the
  message are whatever the parsed content has under \<^verbatim>\<open>name\<close> and \<^verbatim>\<open>about\<close>, \<^verbatim>\<open>undefined\<close>
  when it has no such member.
\<close>

record question =
  question_id :: string
  question_pubkey :: string
  title :: "json option"
  question_message :: "json option"

definition getQuestion :: "js \<Rightarrow> event option \<Rightarrow> string \<Rightarrow> error + question" where
  "getQuestion J got questionId =
     (case got of
        None \<Rightarrow> Inl (NotFound (''Question with id '' @ questionId @ '' not found''))
      | Some event \<Rightarrow>
          (case JSON_parse J (content event) of
             None \<Rightarrow> Inl SyntaxError
           | Some parsed \<Rightarrow>
               (case read_property parsed ''name'' of
                  Inl err \<Rightarrow> Inl err
                | Inr name \<Rightarrow>
                    (case read_property parsed ''about'' of
                       Inl err \<Rightarrow> Inl err
                     | Inr about \<Rightarrow>
                         Inr \<lparr>question_id = id_event event, question_pubkey = pubkey event,
                              title = name, question_message = about\<rparr>))))"

text \<open>
  \<^verbatim>\<open>
  const event: Event | null = await this.relay.get(filter)
  if (!event) {
    throw new Error(`Profile for ${pubkey} not found`);
  }
  const profile: Profile = JSON.parse(event.content);
  return profile;
  \<close>
  The profile is the parsed content as it is.
\<close>

definition getProfile :: "js \<Rightarrow> event option \<Rightarrow> string \<Rightarrow> error + json" where
  "getProfile J got pk =
     (case got of
        None \<Rightarrow> Inl (NotFound (''Profile for '' @ pk @ '' not found''))
      | Some event \<Rightarrow>
          (case JSON_parse J (content event) of
             None \<Rightarrow> Inl SyntaxError
           | Some profile \<Rightarrow> Inr profile))"

text \<open>
  \<^verbatim>\<open>
  const event: Event | null = await this.relay.get(filter)
  if (!event) {
    throw new Error(`Answer with id ${answerId} not found`);
  }
  const answer: Answer = JSON.parse(event.content);
  answer.id = event.id;
  answer.tags = event.tags;
  return answer;
  \<close>
  The answer is the parsed object (or array) with its properties \<^verbatim>\<open>id\<close> and \<^verbatim>\<open>tags\<close> set:
  \<open>parsed_content\<close> with \<open>answer_id\<close> and \<open>answer_tags\<close>. Setting a property of \<^verbatim>\<open>null\<close>,
  or of a number, string or boolean in the strict code of a class, throws a
  \<^verbatim>\<open>TypeError\<close>.
\<close>

record parsed_answer =
  parsed_content :: json
  answer_id :: string
  answer_tags :: "string list list"

definition getAnswer :: "js \<Rightarrow> event option \<Rightarrow> string \<Rightarrow> error + parsed_answer" where
  "getAnswer J got answerId =
     (case got of
        None \<Rightarrow> Inl (NotFound (''Answer with id '' @ answerId @ '' not found''))
      | Some event \<Rightarrow>
          (case JSON_parse J (content event) of
             None \<Rightarrow> Inl SyntaxError
           | Some answer \<Rightarrow>
               (case answer of
                  JObj ms \<Rightarrow>
                    Inr \<lparr>parsed_content = answer, answer_id = id_event event,
                         answer_tags = tags event\<rparr>
                | JArr xs \<Rightarrow>
                    Inr \<lparr>parsed_content = answer, answer_id = id_event event,
                         answer_tags = tags event\<rparr>
                | _ \<Rightarrow> Inl TypeError)))"

text \<open>A kind-40 event whose content is the given text, for the examples.\<close>

definition example_question_event :: "string \<Rightarrow> event" where
  "example_question_event c =
     \<lparr>kind = 40, created_at = 3,
      tags = [[''t'', ''zapstack_test''], [''subject'', ''Q1'']],
      content = c, id_event = ''q1'', pubkey = ''A'', sig = ''''\<rparr>"

section \<open>Properties of the vote tally\<close>

lemma step_invalid: "\<not> valid_vote e \<Longrightarrow> latestVotes_step al e = al"
  by (simp add: latestVotes_step_def valid_vote_def)

lemma map_of_step:
  "map_of (latestVotes_step al e) a =
     (if valid_vote e \<and> pubkey e = a then later_of (map_of al a) e else map_of al a)"
  by (auto simp: latestVotes_step_def valid_vote_def later_of_def update_conv' split: option.splits)

lemma map_of_foldl_step:
  "map_of (foldl latestVotes_step al es) a =
     foldl later_of (map_of al a) (events_by a (filter valid_vote es))"
  by (induction es arbitrary: al) (auto simp: map_of_step events_by_def)

lemma keys_step:
  "fst ` set (latestVotes_step al e) = fst ` set al \<union> (if valid_vote e then {pubkey e} else {})"
  by (auto simp: latestVotes_step_def valid_vote_def dom_update insert_absorb
      dest!: map_of_SomeD split: option.splits intro: rev_image_eqI)

lemma distinct_step: "distinct (map fst al) \<Longrightarrow> distinct (map fst (latestVotes_step al e))"
  by (auto simp: latestVotes_step_def distinct_update split: option.splits)

lemma keys_foldl_step:
  "fst ` set (foldl latestVotes_step al es) = fst ` set al \<union> pubkey ` set (filter valid_vote es)"
  by (induction es arbitrary: al) (auto simp: keys_step)

lemma distinct_foldl_step:
  "distinct (map fst al) \<Longrightarrow> distinct (map fst (foldl latestVotes_step al es))"
  by (induction es arbitrary: al) (auto simp: distinct_step)

lemma foldl_count_step: "foldl count_step r es = r + (\<Sum>e\<leftarrow>es. vote_value e)"
  by (induction es arbitrary: r) (auto simp: count_step_def vote_value_def)

lemma sum_list_alist:
  "distinct (map fst al) \<Longrightarrow>
   (\<Sum>p\<leftarrow>al. f (snd p)) = (\<Sum>k\<in>fst ` set al. case map_of al k of None \<Rightarrow> 0 | Some v \<Rightarrow> f v)"
proof (induction al)
  case Nil
  then show ?case by simp
next
  case (Cons p al)
  obtain k v where p: "p = (k, v)" by (cases p)
  from Cons.prems p have k: "k \<notin> fst ` set al" and d: "distinct (map fst al)" by auto
  have "(\<Sum>x\<in>fst ` set al. case map_of (p # al) x of None \<Rightarrow> 0 | Some v \<Rightarrow> f v)
      = (\<Sum>x\<in>fst ` set al. case map_of al x of None \<Rightarrow> 0 | Some v \<Rightarrow> f v)"
    using k by (intro sum.cong) (auto simp: p)
  then show ?case using k Cons.IH [OF d] by (simp add: p)
qed

lemma latestVotes_of_sum:
  "getVoteResult es = (\<Sum>a\<in>pubkey ` set (filter valid_vote es). latest_value a (filter valid_vote es))"
proof -
  let ?al = "latestVotes_of es"
  have d: "distinct (map fst ?al)"
    unfolding latestVotes_of_def by (rule distinct_foldl_step) simp
  have k: "fst ` set ?al = pubkey ` set (filter valid_vote es)"
    unfolding latestVotes_of_def by (simp add: keys_foldl_step)
  have m: "map_of ?al a = latest_event (events_by a (filter valid_vote es))" for a
    unfolding latestVotes_of_def latest_event_def by (simp add: map_of_foldl_step)
  have "getVoteResult es = (\<Sum>p\<leftarrow>?al. vote_value (snd p))"
    by (simp add: getVoteResult_def foldl_count_step comp_def)
  also have "\<dots> = (\<Sum>k\<in>fst ` set ?al. case map_of ?al k of None \<Rightarrow> 0 | Some v \<Rightarrow> vote_value v)"
    by (rule sum_list_alist [OF d])
  finally show ?thesis by (simp add: k m latest_value_def)
qed


lemma later_of_mem: "later_of b e = Some m \<Longrightarrow> m = e \<or> b = Some m"
  by (auto simp: later_of_def split: option.splits if_splits)

lemma foldl_later_of_Some: "\<exists>m. foldl later_of (Some b) es = Some m"
  by (induction es arbitrary: b) (auto simp: later_of_def)

lemma foldl_later_of_mem:
  "foldl later_of b es = Some m \<Longrightarrow> m \<in> set es \<or> b = Some m"
proof (induction es arbitrary: b)
  case Nil
  then show ?case by simp
next
  case (Cons e es)
  from Cons.IH [of "later_of b e"] Cons.prems
  have "m \<in> set es \<or> later_of b e = Some m" by simp
  then show ?case by (auto dest: later_of_mem)
qed

lemma foldl_later_of_ge:
  "foldl later_of b es = Some m \<Longrightarrow>
   (\<forall>e\<in>set es. created_at e \<le> created_at m) \<and> (\<forall>x. b = Some x \<longrightarrow> created_at x \<le> created_at m)"
proof (induction es arbitrary: b)
  case Nil
  then show ?case by simp
next
  case (Cons e es)
  from Cons.IH [of "later_of b e"] Cons.prems
  have ih: "(\<forall>e\<in>set es. created_at e \<le> created_at m)"
    and ih2: "\<forall>x. later_of b e = Some x \<longrightarrow> created_at x \<le> created_at m"
    by simp_all
  have "created_at e \<le> created_at m"
    using ih2 by (cases b) (auto simp: later_of_def split: if_splits)
  moreover have "\<forall>x. b = Some x \<longrightarrow> created_at x \<le> created_at m"
    using ih2 by (cases b) (auto simp: later_of_def split: if_splits)
  ultimately show ?case using ih by simp
qed

lemma latest_event_Nil: "latest_event es = None \<longleftrightarrow> es = []"
proof (cases es)
  case Nil
  then show ?thesis by (simp add: latest_event_def)
next
  case (Cons e es')
  then show ?thesis
    using foldl_later_of_Some [of e es'] by (auto simp: latest_event_def later_of_def)
qed

lemma latest_event_greatest:
  "latest_event es = Some m \<Longrightarrow> m \<in> set es \<and> (\<forall>e\<in>set es. created_at e \<le> created_at m)"
  unfolding latest_event_def
  using foldl_later_of_mem [of None es m] foldl_later_of_ge [of None es m] by simp

lemma getVoteResult_append_invalid:
  "\<not> valid_vote e \<Longrightarrow> getVoteResult (xs @ e # ys) = getVoteResult (xs @ ys)"
  by (simp add: getVoteResult_def latestVotes_of_def step_invalid)

lemma getVoteResult_filter_valid: "getVoteResult (filter valid_vote es) = getVoteResult es"
  by (simp add: latestVotes_of_sum)

lemma events_by_other:
  "b \<noteq> a \<Longrightarrow> events_by b (filter valid_vote (filter (\<lambda>x. pubkey x \<noteq> a) es)) = events_by b (filter valid_vote es)"
  unfolding events_by_def filter_filter by (rule filter_cong) auto

lemma latest_value_other:
  "b \<noteq> a \<Longrightarrow> latest_value b (filter valid_vote (filter (\<lambda>x. pubkey x \<noteq> a) es)) = latest_value b (filter valid_vote es)"
  unfolding latest_value_def by (subst events_by_other) simp_all

lemma latest_value_absent: "a \<notin> pubkey ` set es \<Longrightarrow> latest_value a es = 0"
proof -
  assume "a \<notin> pubkey ` set es"
  then have "events_by a es = []" by (auto simp: events_by_def filter_empty_conv)
  then show ?thesis by (simp add: latest_value_def latest_event_def)
qed

lemma getVoteResult_split_author:
  "getVoteResult es =
     latest_value a (filter valid_vote es) + getVoteResult (filter (\<lambda>x. pubkey x \<noteq> a) es)"
proof -
  let ?vs = "filter valid_vote es"
  let ?os = "filter (\<lambda>x. pubkey x \<noteq> a) es"
  let ?A = "pubkey ` set ?vs"
  have keys: "pubkey ` set (filter valid_vote ?os) = ?A - {a}" by auto
  have "getVoteResult ?os = (\<Sum>b\<in>?A - {a}. latest_value b (filter valid_vote ?os))"
    by (simp only: latestVotes_of_sum keys)
  also have "\<dots> = (\<Sum>b\<in>?A - {a}. latest_value b ?vs)"
  proof (rule sum.cong)
    fix b assume "b \<in> ?A - {a}"
    then have "b \<noteq> a" by simp
    then show "latest_value b (filter valid_vote ?os) = latest_value b ?vs"
      by (rule latest_value_other)
  qed simp
  finally have rest: "getVoteResult ?os = (\<Sum>b\<in>?A - {a}. latest_value b ?vs)" .
  show ?thesis
  proof (cases "a \<in> ?A")
    case True
    have "getVoteResult es = (\<Sum>b\<in>?A. latest_value b ?vs)" by (rule latestVotes_of_sum)
    also have "\<dots> = latest_value a ?vs + (\<Sum>b\<in>?A - {a}. latest_value b ?vs)"
      using True by (intro sum.remove) auto
    finally show ?thesis by (simp add: rest)
  next
    case False
    then have "?A - {a} = ?A" by auto
    with rest False show ?thesis by (simp add: latestVotes_of_sum latest_value_absent)
  qed
qed

text \<open>
  Claim C1, as amended. For every list of events that the relay returns, the tally is the
  sum, over the distinct authors of the events whose content is \<^verbatim>\<open>"+"\<close> or \<^verbatim>\<open>"-"\<close>, of
  \<open>+1\<close> or \<open>-1\<close> for that author's event with the greatest \<^verbatim>\<open>created_at\<close> among the
  events with such a content (the first one received, where several share that time stamp).
  The events with any other content are left out before the selection, not after it.
\<close>

theorem getVoteResult_latest_valid_vote_per_author:
  "getVoteResult events = tally_latest_per_author (filter valid_vote events)"
proof -
  let ?votes = "filter valid_vote events"
  have "getVoteResult events = (\<Sum>a\<in>pubkey ` set ?votes. latest_value a ?votes)"
    by (rule latestVotes_of_sum)
  also have "\<dots> = (\<Sum>a\<leftarrow>remdups (map pubkey ?votes). latest_value a ?votes)"
    by (simp add: sum_list_distinct_conv_sum_set)
  finally show ?thesis by (simp add: tally_latest_per_author_def)
qed

text \<open>
  The example of the specification: \<open>A\<close> votes \<^verbatim>\<open>"+"\<close> at time 1 and \<^verbatim>\<open>"-"\<close> at time 2,
  \<open>B\<close> votes \<^verbatim>\<open>"+"\<close> at time 1; the tally is \<open>0\<close>.
\<close>

theorem getVoteResult_latest_valid_vote_per_author_witness:
  "getVoteResult
     [example_vote ''A'' ''+'' 1, example_vote ''A'' ''-'' 2, example_vote ''B'' ''+'' 1] = 0"
  using getVoteResult_latest_valid_vote_per_author
    [of "[example_vote ''A'' ''+'' 1, example_vote ''A'' ''-'' 2, example_vote ''B'' ''+'' 1]"]
  by (simp add: tally_latest_per_author_def latest_value_def latest_event_def later_of_def
      events_by_def valid_vote_def vote_value_def example_vote_def)

text \<open>
  Claim C1 as the specification words it selects the latest event of each author among all
  the events and only then ignores a content that is no vote. That differs from the code
  when an author's latest event is malformed: for \<open>A\<close> voting \<^verbatim>\<open>"+"\<close> at time 1 and sending
  \<^verbatim>\<open>"x"\<close> at time 2, the selection over all events keeps \<^verbatim>\<open>"x"\<close> and gives \<open>0\<close>, the code
  gives \<open>1\<close>.
\<close>

theorem getVoteResult_latest_of_all_events_counterexample:
  "getVoteResult [example_vote ''A'' ''+'' 1, example_vote ''A'' ''x'' 2]
   \<noteq> tally_latest_per_author [example_vote ''A'' ''+'' 1, example_vote ''A'' ''x'' 2]"
  by (simp add: getVoteResult_def latestVotes_of_def latestVotes_step_def count_step_def
      tally_latest_per_author_def latest_value_def latest_event_def later_of_def
      events_by_def vote_value_def example_vote_def)

text \<open>
  Claim C8. An event whose content is neither \<^verbatim>\<open>"+"\<close> nor \<^verbatim>\<open>"-"\<close> contributes nothing:
  wherever it stands in the list that the relay returns, the tally is the tally of the list
  without it.
\<close>

theorem getVoteResult_ignores_malformed_content:
  assumes "content e \<noteq> ''+''" and "content e \<noteq> ''-''"
  shows "getVoteResult (xs @ e # ys) = getVoteResult (xs @ ys)"
  using assms by (intro getVoteResult_append_invalid) (simp add: valid_vote_def)

theorem getVoteResult_ignores_malformed_content_witness:
  "content (example_vote ''A'' ''x'' 2) \<noteq> ''+'' \<and> content (example_vote ''A'' ''x'' 2) \<noteq> ''-''
   \<and> getVoteResult
        [example_vote ''A'' ''+'' 1, example_vote ''A'' ''x'' 2, example_vote ''B'' ''+'' 1] = 2"
  using getVoteResult_ignores_malformed_content
    [of "example_vote ''A'' ''x'' 2" "[example_vote ''A'' ''+'' 1]" "[example_vote ''B'' ''+'' 1]"]
  by (simp add: example_vote_def getVoteResult_def latestVotes_of_def latestVotes_step_def
      count_step_def)

text \<open>
  Claim C9. Malformed events are excluded before the latest vote of an author is selected.
  An author \<open>pubkey v\<close> who has sent a vote \<open>v\<close> with content \<^verbatim>\<open>"+"\<close> or \<^verbatim>\<open>"-"\<close> has a
  latest such vote \<open>w\<close> (none of the author's votes with such a content is later), whatever
  else the author has sent and when, and \<open>w\<close> contributes its \<open>+1\<close> or \<open>-1\<close>: the tally is
  that value plus the tally of the events of the other authors.
\<close>

theorem getVoteResult_later_malformed_keeps_valid_vote:
  assumes "v \<in> set events" and "content v = ''+'' \<or> content v = ''-''"
  shows "\<exists>w. latest_event (events_by (pubkey v) (filter valid_vote events)) = Some w
           \<and> w \<in> set events \<and> pubkey w = pubkey v
           \<and> (content w = ''+'' \<or> content w = ''-'')
           \<and> created_at v \<le> created_at w
           \<and> getVoteResult events =
                 (if content w = ''+'' then 1 else - 1)
                 + getVoteResult (filter (\<lambda>x. pubkey x \<noteq> pubkey v) events)"
proof -
  let ?mine = "events_by (pubkey v) (filter valid_vote events)"
  from assms have v: "v \<in> set ?mine" by (simp add: events_by_def valid_vote_def)
  then have "latest_event ?mine \<noteq> None" by (auto simp: latest_event_Nil)
  then obtain w where w: "latest_event ?mine = Some w" by auto
  from latest_event_greatest [OF w] v
  have mem: "w \<in> set ?mine" and ge: "created_at v \<le> created_at w" by auto
  from mem have props:
    "w \<in> set events" "pubkey w = pubkey v" "content w = ''+'' \<or> content w = ''-''"
    by (auto simp: events_by_def valid_vote_def)
  have "getVoteResult events =
      latest_value (pubkey v) (filter valid_vote events)
      + getVoteResult (filter (\<lambda>x. pubkey x \<noteq> pubkey v) events)"
    by (rule getVoteResult_split_author)
  with w props(3) have "getVoteResult events =
      (if content w = ''+'' then 1 else - 1)
      + getVoteResult (filter (\<lambda>x. pubkey x \<noteq> pubkey v) events)"
    by (auto simp: latest_value_def vote_value_def)
  with w props ge show ?thesis by blast
qed

text \<open>\<open>A\<close> votes \<^verbatim>\<open>"+"\<close> at time 1 and sends \<^verbatim>\<open>"x"\<close> at time 2: the tally is \<open>1\<close>.\<close>

theorem getVoteResult_later_malformed_keeps_valid_vote_witness:
  "example_vote ''A'' ''+'' 1 \<in> set [example_vote ''A'' ''+'' 1, example_vote ''A'' ''x'' 2]
   \<and> content (example_vote ''A'' ''+'' 1) = ''+''
   \<and> getVoteResult [example_vote ''A'' ''+'' 1, example_vote ''A'' ''x'' 2] = 1"
  using getVoteResult_later_malformed_keeps_valid_vote
    [of "example_vote ''A'' ''+'' 1" "[example_vote ''A'' ''+'' 1, example_vote ''A'' ''x'' 2]"]
  by (simp add: latest_event_def later_of_def events_by_def valid_vote_def example_vote_def
      getVoteResult_def latestVotes_of_def)

section \<open>Properties of the answer list\<close>

lemma listAnswers_events:
  "map event.truncate (listAnswers events) = filter (\<lambda>e. \<not> has_p_tag e) events"
  by (induction events) (auto simp: listAnswers_def event.truncate_def event.extend_def)

lemma listAnswers_message:
  "a \<in> set (listAnswers events) \<Longrightarrow> message a = content a \<and> vote a = 0"
  by (auto simp: listAnswers_def event.extend_def answer.fields_def split: if_splits)

lemma has_p_tag_iff: "has_p_tag e = (\<exists>t\<in>set (tags e). t \<noteq> [] \<and> hd t = ''p'')"
proof -
  have "(case t of [] \<Rightarrow> False | x # _ \<Rightarrow> x = ''p'') = (t \<noteq> [] \<and> hd t = ''p'')"
    for t :: "string list"
    by (cases t) auto
  then show ?thesis by (simp add: has_p_tag_def list_ex_iff)
qed

text \<open>
  Claim C10. The events of the answers that \<^verbatim>\<open>listAnswers\<close> returns are, in the relay's
  order, exactly the returned events that have no tag whose first element is \<^verbatim>\<open>"p"\<close>; every
  event with such a tag is left out. The message of each answer is the content of its event
  (and its vote count starts at \<open>0\<close>).
\<close>

theorem listAnswers_excludes_mentions:
  "map event.truncate (listAnswers events)
     = filter (\<lambda>e. \<not> (\<exists>t\<in>set (tags e). t \<noteq> [] \<and> hd t = ''p'')) events
   \<and> (\<forall>a\<in>set (listAnswers events). message a = content a \<and> vote a = 0)"
  using listAnswers_events [of events] listAnswers_message [of _ events]
  by (auto simp: has_p_tag_iff)

theorem listAnswers_excludes_mentions_witness:
  "map event.truncate (listAnswers [example_answer, example_comment]) = [example_answer]
   \<and> map message (listAnswers [example_answer, example_comment]) = [''an answer'']"
  using listAnswers_excludes_mentions [of "[example_answer, example_comment]"]
  by (simp add: example_answer_def example_comment_def listAnswers_def has_p_tag_def
      event.extend_def answer.fields_def)

section \<open>Properties of the payment-confirmation wait\<close>

lemma on_zap_event_requests: "requests (snd (on_zap_event iv ps e)) = requests (snd ps)"
  by (simp add: on_zap_event_def Let_def)

lemma foldl_zap_requests:
  "requests (snd (foldl (on_zap_event iv) ps es)) = requests (snd ps)"
  by (induction es arbitrary: ps) (simp_all add: on_zap_event_requests)

lemma on_zap_event_fst:
  "fst (on_zap_event iv ps e) = (if zap_match iv e then resolve (fst ps) else fst ps)"
  by (auto simp: on_zap_event_def zap_match_def Let_def split: option.splits)

lemma foldl_zap_fst:
  "fst (foldl (on_zap_event iv) ps es) =
     (if \<exists>e\<in>set es. zap_match iv e then resolve (fst ps) else fst ps)"
  by (induction es arbitrary: ps) (auto simp: on_zap_event_fst resolve_def split: promise.splits)

text \<open>
  Claim C3, as amended. For every stream of receipts delivered to the subscription: the wait
  is resolved as soon as a receipt has arrived whose \<^verbatim>\<open>bolt11\<close> tag is not empty and equals
  the expected invoice, and it is pending as long as no such receipt has arrived. The
  subscription is opened once and is not cancelled: the only request made on the relay is
  the subscription itself.
\<close>

theorem waitForZap_resolves_on_match:
  assumes "relay s \<noteq> None"
  shows "fst (waitForZap s answerId invoice events) =
           (if \<exists>e\<in>set events. invoice \<noteq> '''' \<and> getTag (tags e) ''bolt11'' = Some invoice
            then Resolved () else Pending)
       \<and> requests (snd (waitForZap s answerId invoice events)) =
           requests s @ [Subscribe (zap_filter answerId)]"
  using assms
  by (auto simp: waitForZap_def foldl_zap_fst foldl_zap_requests zap_match_def resolve_def)

theorem waitForZap_resolves_on_match_witness:
  "relay connected_service \<noteq> None
   \<and> fst (waitForZap connected_service ''answer1'' ''lnbc1''
            [example_receipt ''lnbc2'', example_receipt ''lnbc1'', example_receipt ''lnbc3''])
       = Resolved ()
   \<and> fst (waitForZap connected_service ''answer1'' ''lnbc1'' [example_receipt ''lnbc2''])
       = Pending"
  using waitForZap_resolves_on_match [of connected_service "''answer1''" "''lnbc1''"
      "[example_receipt ''lnbc2'', example_receipt ''lnbc1'', example_receipt ''lnbc3'']"]
    waitForZap_resolves_on_match [of connected_service "''answer1''" "''lnbc1''"
      "[example_receipt ''lnbc2'']"]
  by (simp add: connected_service_def getTag_def example_receipt_def)

text \<open>
  Claim C3 as the specification words it has the subscription cancelled on the first match.
  After a receipt with the expected invoice the wait is resolved, and no request to
  unsubscribe has been made.
\<close>

theorem waitForZap_subscription_not_cancelled_counterexample:
  "fst (waitForZap connected_service ''answer1'' ''lnbc1'' [example_receipt ''lnbc1''])
     = Resolved ()
   \<and> Unsubscribe \<notin> set (requests (snd
         (waitForZap connected_service ''answer1'' ''lnbc1'' [example_receipt ''lnbc1''])))"
  by (simp add: waitForZap_def connected_service_def on_zap_event_def getTag_def
      example_receipt_def resolve_def)

section \<open>Properties of the payment request\<close>

text \<open>
  Claim C7. For every input, \<^verbatim>\<open>getZapRequest\<close> leaves the service as it is, so it makes no
  request on the relay and publishes nothing; what it returns is the URI-component encoding
  of the JSON serialisation of the signed event of kind 9734 (or the error thrown on the
  way). \<^verbatim>\<open>publishEvent\<close>, through which the other builders hand their signed event to the
  relay, does record a publish request whenever a relay is set.
\<close>

theorem getZapRequest_never_publishes:
  "snd (getZapRequest L s privKey now answerId receiverPubKey amount) = s
   \<and> requests (snd (getZapRequest L s privKey now answerId receiverPubKey amount)) = requests s
   \<and> fst (getZapRequest L s privKey now answerId receiverPubKey amount) =
       (case relay_url s of
          None \<Rightarrow> Inl TypeError
        | Some u \<Rightarrow>
            map_sum (\<lambda>err. err) (\<lambda>ev. encodeURIComponent L (JSON_stringify L ev))
              (finishEvent L (zap_request_template L now answerId receiverPubKey amount u)
                 privKey))
   \<and> kind (zap_request_template L now answerId receiverPubKey amount u) = 9734
   \<and> requests (snd (publishEvent s signedEvent ack)) =
       (if relay s = None then requests s else requests s @ [Publish signedEvent])"
proof -
  have frame: "snd (getZapRequest L s privKey now answerId receiverPubKey amount) = s"
    by (simp add: getZapRequest_def split: option.splits sum.splits)
  have result: "fst (getZapRequest L s privKey now answerId receiverPubKey amount) =
       (case relay_url s of
          None \<Rightarrow> Inl TypeError
        | Some u \<Rightarrow>
            map_sum (\<lambda>err. err) (\<lambda>ev. encodeURIComponent L (JSON_stringify L ev))
              (finishEvent L (zap_request_template L now answerId receiverPubKey amount u)
                 privKey))"
    by (simp add: getZapRequest_def split: option.splits sum.splits)
  have publish: "requests (snd (publishEvent s signedEvent ack)) =
       (if relay s = None then requests s else requests s @ [Publish signedEvent])"
    by (simp add: publishEvent_def Let_def split: option.splits relay_ack.splits)
  from frame result publish show ?thesis by (simp add: zap_request_template_def)
qed

section \<open>Properties of publishing and deleting\<close>

text \<open>
  Claim C6 asks that the rejection of a published event by the relay reaches the caller as a
  failure. \<^verbatim>\<open>publishEvent\<close> does that: its promise is rejected with the relay's reason.
  \<^verbatim>\<open>deleteEvents\<close> does not: when the relay rejects the deletion event, the promise of
  \<^verbatim>\<open>deleteEvents\<close> is resolved all the same, and the reason is only written to the console.
\<close>

theorem deleteEvents_rejection_only_logged:
  assumes "relay s \<noteq> None"
    and "finishEvent L (deletion_template now eventId) privKey = Inr signedEvent"
  shows "fst (deleteEvents L s privKey now eventId (Some (Failed reason))) = Resolved ()
       \<and> console (snd (deleteEvents L s privKey now eventId (Some (Failed reason)))) =
           console s @ [Log_text ''deletion event failed'', Log_text reason]
       \<and> fst (publishEvent s signedEvent (Some (Failed reason))) = Rejected (Reason reason)"
  using assms by (auto simp: deleteEvents_def publishEvent_def)

theorem deleteEvents_rejection_only_logged_witness:
  "relay connected_service \<noteq> None
   \<and> fst (deleteEvents example_lib connected_service ''key'' 1000 ''ev1''
           (Some (Failed ''blocked''))) = Resolved ()"
  using deleteEvents_rejection_only_logged
    [of connected_service example_lib 1000 "''ev1''" "''key''" _ "''blocked''"]
  by (simp add: connected_service_def example_lib_def)

section \<open>Properties of \<^verbatim>\<open>connect\<close>\<close>

lemmas connect_defs =
  run_actions_def connect_open_def relayInit_def relay_connect_def relay_close_def
  socket_open_def socket_error_def set_status_def has_status_def live_relays_def

text \<open>
  The call of \<^verbatim>\<open>connectRelay\<close> in the constructor: no relay object is set, so the call
  creates the first one at once; when its socket has opened, the call returns.
\<close>

lemma constructor_connects:
  "run_actions new_service
     [Call ''wss://relay.damus.io'', Socket_open 0, Resume 0]
   = (connected_service, [Returned])"
  by (simp add: connect_defs new_service_def connected_service_def)

text \<open>A socket that fails: the call is rejected, and no relay object is live.\<close>

lemma connect_unreachable:
  "snd (run_actions connected_service (failing_call ''wss://a'' ''refused'')) = [Rejected_call]
   \<and> live_relays (fst (run_actions connected_service (failing_call ''wss://a'' ''refused''))) = []
   \<and> connected (fst (run_actions connected_service (failing_call ''wss://a'' ''refused''))) = False"
  by (simp add: connect_defs connected_service_def failing_call_def upt_conv_Cons)

text \<open>
  Claim C5 asks that \<^verbatim>\<open>connect(urlA)\<close> followed at once by \<^verbatim>\<open>connect(urlB)\<close> leaves one live
  connection, to \<open>urlB\<close>, and that never more than one connection is live. The code closes
  the current relay object before it opens a new one, which does that when the second call
  is made after the first has returned: then only the relay object for \<open>b\<close> is live. When
  the second call is made at once, it finds the first suspended at
  \<^verbatim>\<open>await this.relay.close()\<close>, before \<^verbatim>\<open>this.relay\<close> is assigned: both calls close the same
  old relay object, each opens a new one, and both calls return with the relay objects for
  \<open>a\<close> and for \<open>b\<close> live.
\<close>

theorem connect_overlapping_calls_two_live:
  "relays (fst (run_actions connected_service (overlapping_calls ''wss://a'' ''wss://b''))) =
     [\<lparr>url = ''wss://relay.damus.io'', status = Closed\<rparr>,
      \<lparr>url = ''wss://a'', status = Live\<rparr>,
      \<lparr>url = ''wss://b'', status = Live\<rparr>]
   \<and> relay (fst (run_actions connected_service (overlapping_calls ''wss://a'' ''wss://b'')))
       = Some 2
   \<and> snd (run_actions connected_service (overlapping_calls ''wss://a'' ''wss://b''))
       = [Returned, Returned]
   \<and> live_relays (fst (run_actions connected_service
         (overlapping_calls ''wss://a'' ''wss://b''))) = [1, 2]
   \<and> relays (fst (run_actions connected_service (sequential_calls ''wss://a'' ''wss://b''))) =
     [\<lparr>url = ''wss://relay.damus.io'', status = Closed\<rparr>,
      \<lparr>url = ''wss://a'', status = Closed\<rparr>,
      \<lparr>url = ''wss://b'', status = Live\<rparr>]
   \<and> live_relays (fst (run_actions connected_service
         (sequential_calls ''wss://a'' ''wss://b''))) = [2]
   \<and> snd (run_actions connected_service (sequential_calls ''wss://a'' ''wss://b''))
       = [Returned, Returned]"
  by (simp add: connect_defs connected_service_def overlapping_calls_def sequential_calls_def
      upt_conv_Cons)

section \<open>Properties of the payment total\<close>

lemma find_tag_typed:
  "find_tag n (map (\<lambda>t. JArr (map JStr t)) tgs) =
     Inr (map_option (\<lambda>t. JArr (map JStr t))
            (find (\<lambda>t. case t of [] \<Rightarrow> False | t0 # _ \<Rightarrow> t0 = n) tgs))"
  by (induction tgs) (auto simp: read_index_def split: list.splits)

lemma getTag_any_typed:
  "getTag_any (Some (tags_json tgs)) n = Inr (map_option JStr (getTag tgs n))"
  by (auto simp: getTag_any_def tags_json_def find_tag_typed getTag_def read_index_def
      split: option.splits list.splits)

lemma zap_amounts_Inr:
  "map (zap_amount J) events = map Inr amounts \<Longrightarrow> zap_amounts J events = Inr amounts"
  by (induction events arbitrary: amounts) auto

lemma zap_amounts_Inl:
  "e \<in> set events \<Longrightarrow> zap_amount J e = Inl err \<Longrightarrow> \<exists>err'. zap_amounts J events = Inl err'"
  by (induction events) (auto split: sum.splits)

lemma zap_amount_missing:
  "getTag (tags e) ''description'' = None \<or> getTag (tags e) ''description'' = Some '''' \<Longrightarrow>
   zap_amount J e = Inr (Finite 0)"
  by (auto simp: zap_amount_def)

lemma zap_amount_unparseable:
  "getTag (tags e) ''description'' = Some d \<Longrightarrow> d \<noteq> '''' \<Longrightarrow> JSON_parse J d = None \<Longrightarrow>
   zap_amount J e = Inl SyntaxError"
  by (simp add: zap_amount_def)

lemma zap_amount_request:
  "getTag (tags e) ''description'' = Some d \<Longrightarrow> d \<noteq> '''' \<Longrightarrow>
   JSON_parse J d = Some (JObj ms) \<Longrightarrow> map_of ms ''tags'' = Some (tags_json tgs) \<Longrightarrow>
   getTag tgs ''amount'' = Some a \<Longrightarrow> a \<noteq> '''' \<Longrightarrow> Number J (JStr a) = Inr n \<Longrightarrow>
   zap_amount J e = Inr (number_divide J n (Finite 1000))"
  by (simp add: zap_amount_def read_property_def getTag_any_typed truthy_def)

lemma zap_amounts_first_error:
  "map (zap_amount J) xs = map Inr amounts \<Longrightarrow> zap_amount J e = Inl err \<Longrightarrow>
   zap_amounts J (xs @ e # ys) = Inl err"
  by (induction xs arbitrary: amounts) auto

text \<open>The examples, evaluated.\<close>

lemma zap_amount_example_3000: "zap_amount example_js (example_zap ''3000'') = Inr (Finite 3)"
  by code_simp

lemma zap_amount_example_5000: "zap_amount example_js (example_zap ''5000'') = Inr (Finite 5)"
  by code_simp

lemma zap_amount_example_missing: "zap_amount example_js example_zap_missing = Inr (Finite 0)"
  by code_simp

lemma zap_amount_example_null: "zap_amount example_js example_zap_null = Inl TypeError"
  by code_simp

lemma description_example_missing: "getTag (tags example_zap_missing) ''description'' = None"
  by code_simp

lemma description_example_unparseable:
  "getTag (tags example_zap_unparseable) ''description'' = Some ''not json''"
  by code_simp

lemma parse_json_not_json: "parse_json ''not json'' = None"
  by code_simp

lemma description_example_3000:
  "getTag (tags (example_zap ''3000'')) ''description'' = Some (example_request_text ''3000'')"
  by (simp add: example_zap_def getTag_def)

lemma parse_json_example_request:
  "parse_json (example_request_text ''3000'') =
     Some (JObj [(''kind'', JNum 9734), (''content'', JStr ''''),
                 (''tags'', tags_json [[''e'', ''answer1''], [''amount'', ''3000'']])])"
  by code_simp

lemma decimal_number_3000: "decimal_number (JStr ''3000'') = Inr (Finite 3000)"
  by code_simp

lemma exact_divide_3000: "exact_divide (Finite 3000) (Finite 1000) = Finite 3"
  by (simp add: exact_divide_def)

lemma exact_sum_example:
  "foldl exact_add (Finite 0) [Finite 3, Finite 0, Finite 5] = Finite 8"
  by (simp add: exact_add_def)

text \<open>
  Claim C2, as amended. For every list of receipts: a receipt without a description tag, or
  with an empty one, contributes \<open>0\<close>; a receipt whose description is the JSON text of a
  request with a non-empty amount tag contributes \<^verbatim>\<open>Number\<close> of that amount divided by 1000;
  when every receipt contributes an amount, the total is the sum of the amounts, added from
  \<open>0\<close> in the order of the receipts, quotient and sum being those of the doubles. A receipt
  with a description that is not empty and that \<^verbatim>\<open>JSON.parse\<close> rejects makes the whole call
  fail: with the \<^verbatim>\<open>SyntaxError\<close> of \<^verbatim>\<open>JSON.parse\<close> when every receipt before it contributes
  an amount, and with some error in any case.
\<close>

theorem getZaps_sums_amounts:
  "(getTag (tags e) ''description'' = None \<or> getTag (tags e) ''description'' = Some '''' \<longrightarrow>
      zap_amount J e = Inr (Finite 0))
   \<and> (getTag (tags e) ''description'' = Some d \<and> d \<noteq> '''' \<and> JSON_parse J d = Some (JObj ms)
        \<and> map_of ms ''tags'' = Some (tags_json tgs) \<and> getTag tgs ''amount'' = Some a
        \<and> a \<noteq> '''' \<and> Number J (JStr a) = Inr n \<longrightarrow>
      zap_amount J e = Inr (number_divide J n (Finite 1000)))
   \<and> (map (zap_amount J) events = map Inr amounts \<longrightarrow>
      getZaps J events = Inr (foldl (number_add J) (Finite 0) amounts))
   \<and> (getTag (tags e) ''description'' = Some d \<and> d \<noteq> '''' \<and> JSON_parse J d = None
        \<and> map (zap_amount J) xs = map Inr amounts \<longrightarrow>
      getZaps J (xs @ e # ys) = Inl SyntaxError)
   \<and> (getTag (tags e) ''description'' = Some d \<and> d \<noteq> '''' \<and> JSON_parse J d = None
        \<and> e \<in> set events \<longrightarrow>
      (\<exists>err. getZaps J events = Inl err))"
proof -
  have unparseable: "zap_amount J e = Inl SyntaxError"
    if "getTag (tags e) ''description'' = Some d" "d \<noteq> ''''" "JSON_parse J d = None"
    using that by (rule zap_amount_unparseable)
  have first: "getZaps J (xs @ e # ys) = Inl SyntaxError"
    if "getTag (tags e) ''description'' = Some d" "d \<noteq> ''''" "JSON_parse J d = None"
      "map (zap_amount J) xs = map Inr amounts"
    using zap_amounts_first_error [OF that(4) unparseable [OF that(1-3)], of ys]
    by (simp add: getZaps_def)
  have some: "\<exists>err. getZaps J events = Inl err"
    if "getTag (tags e) ''description'' = Some d" "d \<noteq> ''''" "JSON_parse J d = None"
      "e \<in> set events"
  proof -
    from zap_amounts_Inl [OF that(4) unparseable [OF that(1-3)]]
    obtain err' where "zap_amounts J events = Inl err'" by blast
    then show ?thesis by (simp add: getZaps_def)
  qed
  have total: "getZaps J events = Inr (foldl (number_add J) (Finite 0) amounts)"
    if "map (zap_amount J) events = map Inr amounts"
    using zap_amounts_Inr [OF that] by (simp add: getZaps_def)
  from first some total show ?thesis
    using zap_amount_missing [of e J] zap_amount_request [of e d J ms tgs a n] by blast
qed

text \<open>
  The example of the specification: the embedded amounts \<open>3000\<close> and \<open>5000\<close> give the total
  \<open>8\<close>, also with a receipt without description between them; a receipt whose description
  is \<^verbatim>\<open>not json\<close> makes the call fail, with a \<^verbatim>\<open>SyntaxError\<close> after a receipt that
  contributes.
\<close>

theorem getZaps_sums_amounts_witness:
  "getTag (tags example_zap_missing) ''description'' = None
   \<and> zap_amount example_js example_zap_missing = Inr (Finite 0)
   \<and> getTag (tags (example_zap ''3000'')) ''description'' = Some (example_request_text ''3000'')
   \<and> Number example_js (JStr ''3000'') = Inr (Finite 3000)
   \<and> zap_amount example_js (example_zap ''3000'')
       = Inr (number_divide example_js (Finite 3000) (Finite 1000))
   \<and> number_divide example_js (Finite 3000) (Finite 1000) = Finite 3
   \<and> map (zap_amount example_js) [example_zap ''3000'', example_zap_missing, example_zap ''5000'']
       = map Inr [Finite 3, Finite 0, Finite 5]
   \<and> getZaps example_js [example_zap ''3000'', example_zap_missing, example_zap ''5000'']
       = Inr (Finite 8)
   \<and> getTag (tags example_zap_unparseable) ''description'' = Some ''not json''
   \<and> JSON_parse example_js ''not json'' = None
   \<and> getZaps example_js ([example_zap ''3000''] @ example_zap_unparseable # [example_zap ''5000''])
       = Inl SyntaxError
   \<and> (\<exists>err. getZaps example_js [example_zap_null, example_zap_unparseable] = Inl err)"
proof -
  let ?three = "[example_zap ''3000'', example_zap_missing, example_zap ''5000'']"
  let ?ms = "[(''kind'', JNum 9734), (''content'', JStr ''''),
              (''tags'', tags_json [[''e'', ''answer1''], [''amount'', ''3000'']])]"
  have amounts: "map (zap_amount example_js) ?three = map Inr [Finite 3, Finite 0, Finite 5]"
    by (simp add: zap_amount_example_3000 zap_amount_example_5000 zap_amount_example_missing)
  have one: "map (zap_amount example_js) [example_zap ''3000''] = map Inr [Finite 3]"
    by (simp add: zap_amount_example_3000)
  have sum: "foldl (number_add example_js) (Finite 0) [Finite 3, Finite 0, Finite 5] = Finite 8"
    using exact_sum_example by (simp add: example_js_def)
  have quotient: "number_divide example_js (Finite 3000) (Finite 1000) = Finite 3"
    using exact_divide_3000 by (simp add: example_js_def)
  have none: "JSON_parse example_js ''not json'' = None"
    by (simp add: example_js_def parse_json_not_json)
  have mem: "example_zap_unparseable \<in> set [example_zap_null, example_zap_unparseable]"
    by simp
  have nonempty: "example_request_text ''3000'' \<noteq> ''''"
    by (simp add: example_request_text_def)
  have request: "JSON_parse example_js (example_request_text ''3000'') = Some (JObj ?ms)"
    "map_of ?ms ''tags'' = Some (tags_json [[''e'', ''answer1''], [''amount'', ''3000'']])"
    "getTag [[''e'', ''answer1''], [''amount'', ''3000'']] ''amount'' = Some ''3000''"
    "''3000'' \<noteq> ''''"
    and number: "Number example_js (JStr ''3000'') = Inr (Finite 3000)"
    by (simp_all add: example_js_def parse_json_example_request getTag_def decimal_number_3000)
  have amount: "zap_amount example_js (example_zap ''3000'')
      = Inr (number_divide example_js (Finite 3000) (Finite 1000))"
    using getZaps_sums_amounts [of "example_zap ''3000''" example_js
        "example_request_text ''3000''" ?ms "[[''e'', ''answer1''], [''amount'', ''3000'']]"
        "''3000''" "Finite 3000"]
      description_example_3000 nonempty request number
    by blast
  have total: "getZaps example_js ?three
      = Inr (foldl (number_add example_js) (Finite 0) [Finite 3, Finite 0, Finite 5])"
    using getZaps_sums_amounts [of example_zap_missing example_js _ _ _ _ _ ?three
        "[Finite 3, Finite 0, Finite 5]"] amounts
    by blast
  have thrown: "getZaps example_js
      ([example_zap ''3000''] @ example_zap_unparseable # [example_zap ''5000'']) = Inl SyntaxError"
    using getZaps_sums_amounts [of example_zap_unparseable example_js "''not json''" _ _ _ _ _
        "[Finite 3]" "[example_zap ''3000'']" "[example_zap ''5000'']"]
      description_example_unparseable none one
    by blast
  have fails: "\<exists>err. getZaps example_js [example_zap_null, example_zap_unparseable] = Inl err"
    using getZaps_sums_amounts [of example_zap_unparseable example_js "''not json''" _ _ _ _
        "[example_zap_null, example_zap_unparseable]"]
      description_example_unparseable none mem
    by blast
  from total sum have "getZaps example_js ?three = Inr (Finite 8)" by simp
  with amounts quotient none description_example_missing description_example_unparseable
    zap_amount_example_missing description_example_3000 number amount thrown fails
  show ?thesis by simp
qed

text \<open>
  Claim C2 as the specification words it lets a receipt with an unparseable description
  contribute \<open>0\<close> without making the call throw. With such a receipt between the receipts
  for \<open>3000\<close> and \<open>5000\<close> the call fails with the \<^verbatim>\<open>SyntaxError\<close> of \<^verbatim>\<open>JSON.parse\<close>; it
  does not return \<open>8\<close>.
\<close>

theorem getZaps_unparseable_description_counterexample:
  "getZaps example_js [example_zap ''3000'', example_zap_unparseable, example_zap ''5000'']
     = Inl SyntaxError"
  by code_simp

text \<open>
  After a receipt whose description is the JSON text \<^verbatim>\<open>null\<close> the error is the
  \<^verbatim>\<open>TypeError\<close> of reading \<^verbatim>\<open>zapRequest.tags\<close>, whatever follows.
\<close>

lemma getZaps_null_description:
  "getZaps example_js [example_zap_null, example_zap_unparseable] = Inl TypeError"
  by code_simp

section \<open>Properties of the single-result calls\<close>

lemma getQuestion_Inr:
  assumes "getQuestion J (Some event) questionId = Inr q"
  shows "question_id q = id_event event \<and> question_pubkey q = pubkey event
       \<and> (\<exists>parsed. JSON_parse J (content event) = Some parsed
            \<and> read_property parsed ''name'' = Inr (title q)
            \<and> read_property parsed ''about'' = Inr (question_message q))"
  using assms by (auto simp: getQuestion_def split: option.splits sum.splits)

lemma getAnswer_Inr:
  assumes "getAnswer J (Some event) answerId = Inr a"
  shows "JSON_parse J (content event) = Some (parsed_content a)
       \<and> answer_id a = id_event event \<and> answer_tags a = tags event"
  using assms by (auto simp: getAnswer_def split: option.splits json.splits)

lemma getProfile_Inr:
  assumes "getProfile J (Some event) pk = Inr p"
  shows "JSON_parse J (content event) = Some p"
  using assms by (auto simp: getProfile_def split: option.splits)

lemma getQuestion_example_full:
  "getQuestion example_js
     (Some (example_question_event ''{\"name\":\"Q1\",\"about\":\"body\"}'')) ''q1'' =
   Inr \<lparr>question_id = ''q1'', question_pubkey = ''A'', title = Some (JStr ''Q1''),
        question_message = Some (JStr ''body'')\<rparr>"
  by code_simp

lemma parse_json_plain_text: "parse_json ''an answer'' = None"
  by code_simp

lemma getAnswer_example_empty:
  "getAnswer example_js (Some (example_question_event ''{}'')) ''q1'' =
   Inr \<lparr>parsed_content = JObj [], answer_id = ''q1'',
        answer_tags = [[''t'', ''zapstack_test''], [''subject'', ''Q1'']]\<rparr>"
  by code_simp

lemma getProfile_example_empty:
  "getProfile example_js (Some (example_question_event ''{}'')) ''A'' = Inr (JObj [])"
  by code_simp

text \<open>
  Claim C4, as amended. Each of \<^verbatim>\<open>getQuestion\<close>, \<^verbatim>\<open>getAnswer\<close> and \<^verbatim>\<open>getProfile\<close> fails
  with its not-found error when the relay returns no event, and with the \<^verbatim>\<open>SyntaxError\<close> of
  \<^verbatim>\<open>JSON.parse\<close> when the content of the event is no JSON text. When a call succeeds, its
  value is built from the parsed content as it is: the question has the id and the public
  key of the event, and as title and message what the content has under \<^verbatim>\<open>name\<close> and
  \<^verbatim>\<open>about\<close> (\<^verbatim>\<open>undefined\<close> when it has no such member); the answer is the parsed content with
  the id and the tags of the event; the profile is the parsed content.
\<close>

theorem get_one_not_found:
  "getQuestion J None questionId
     = Inl (NotFound (''Question with id '' @ questionId @ '' not found''))
   \<and> getAnswer J None answerId = Inl (NotFound (''Answer with id '' @ answerId @ '' not found''))
   \<and> getProfile J None pk = Inl (NotFound (''Profile for '' @ pk @ '' not found''))
   \<and> (JSON_parse J (content event) = None \<longrightarrow>
        getQuestion J (Some event) questionId = Inl SyntaxError
        \<and> getAnswer J (Some event) answerId = Inl SyntaxError
        \<and> getProfile J (Some event) pk = Inl SyntaxError)
   \<and> (getQuestion J (Some event) questionId = Inr q \<longrightarrow>
        question_id q = id_event event \<and> question_pubkey q = pubkey event
        \<and> (\<exists>parsed. JSON_parse J (content event) = Some parsed
             \<and> read_property parsed ''name'' = Inr (title q)
             \<and> read_property parsed ''about'' = Inr (question_message q)))
   \<and> (getAnswer J (Some event) answerId = Inr a \<longrightarrow>
        JSON_parse J (content event) = Some (parsed_content a)
        \<and> answer_id a = id_event event \<and> answer_tags a = tags event)
   \<and> (getProfile J (Some event) pk = Inr p \<longrightarrow> JSON_parse J (content event) = Some p)"
proof -
  have nf: "getQuestion J None questionId
       = Inl (NotFound (''Question with id '' @ questionId @ '' not found''))"
    "getAnswer J None answerId = Inl (NotFound (''Answer with id '' @ answerId @ '' not found''))"
    "getProfile J None pk = Inl (NotFound (''Profile for '' @ pk @ '' not found''))"
    by (simp_all add: getQuestion_def getAnswer_def getProfile_def)
  have se: "getQuestion J (Some event) questionId = Inl SyntaxError
        \<and> getAnswer J (Some event) answerId = Inl SyntaxError
        \<and> getProfile J (Some event) pk = Inl SyntaxError"
    if "JSON_parse J (content event) = None"
    using that by (simp add: getQuestion_def getAnswer_def getProfile_def)
  from nf se show ?thesis
    using getQuestion_Inr [of J event questionId q] getAnswer_Inr [of J event answerId a]
      getProfile_Inr [of J event pk p]
    by blast
qed

theorem get_one_not_found_witness:
  "getQuestion example_js None ''q1'' = Inl (NotFound ''Question with id q1 not found'')
   \<and> JSON_parse example_js (content (example_question_event ''an answer'')) = None
   \<and> getAnswer example_js (Some (example_question_event ''an answer'')) ''q1'' = Inl SyntaxError
   \<and> getQuestion example_js
        (Some (example_question_event ''{\"name\":\"Q1\",\"about\":\"body\"}'')) ''q1'' =
      Inr \<lparr>question_id = ''q1'', question_pubkey = ''A'', title = Some (JStr ''Q1''),
           question_message = Some (JStr ''body'')\<rparr>
   \<and> JSON_parse example_js
        (content (example_question_event ''{\"name\":\"Q1\",\"about\":\"body\"}'')) \<noteq> None
   \<and> getAnswer example_js (Some (example_question_event ''{}'')) ''q1'' =
      Inr \<lparr>parsed_content = JObj [], answer_id = ''q1'',
           answer_tags = [[''t'', ''zapstack_test''], [''subject'', ''Q1'']]\<rparr>
   \<and> getProfile example_js (Some (example_question_event ''{}'')) ''A'' = Inr (JObj [])
   \<and> JSON_parse example_js (content (example_question_event ''{}'')) = Some (JObj [])"
proof -
  let ?plain = "example_question_event ''an answer''"
  let ?full = "example_question_event ''{\"name\":\"Q1\",\"about\":\"body\"}''"
  let ?empty = "example_question_event ''{}''"
  let ?q = "\<lparr>question_id = ''q1'', question_pubkey = ''A'', title = Some (JStr ''Q1''),
             question_message = Some (JStr ''body'')\<rparr>"
  let ?a = "\<lparr>parsed_content = JObj [], answer_id = ''q1'',
             answer_tags = [[''t'', ''zapstack_test''], [''subject'', ''Q1'']]\<rparr>"
  have none: "JSON_parse example_js (content ?plain) = None"
    by (simp add: example_js_def example_question_event_def parse_json_plain_text)
  have nf: "getQuestion example_js None ''q1'' = Inl (NotFound (''Question with id '' @ ''q1'' @ '' not found''))"
    and se: "getAnswer example_js (Some ?plain) ''q1'' = Inl SyntaxError"
    using get_one_not_found [of example_js "''q1''" "''q1''" "''A''" ?plain] none by blast+
  have full: "JSON_parse example_js (content ?full) \<noteq> None"
    using get_one_not_found [of example_js "''q1''" "''q1''" "''A''" ?full ?q]
      getQuestion_example_full
    by auto
  have empty: "JSON_parse example_js (content ?empty) = Some (JObj [])"
    using get_one_not_found [of example_js "''q1''" "''q1''" "''A''" ?empty _ ?a "JObj []"]
      getAnswer_example_empty getProfile_example_empty
    by simp
  from none nf se full empty getQuestion_example_full getAnswer_example_empty
    getProfile_example_empty
  show ?thesis by simp
qed

text \<open>
  Claim C4 as the specification words it never lets a call that succeeds return a value that
  is populated in part. For an event whose content is the JSON text \<^verbatim>\<open>{}\<close>, \<^verbatim>\<open>getQuestion\<close>
  succeeds with a question that has an id and a public key, and neither title nor message.
\<close>

theorem getQuestion_partially_populated_counterexample:
  "getQuestion example_js (Some (example_question_event ''{}'')) ''q1'' =
   Inr \<lparr>question_id = ''q1'', question_pubkey = ''A'', title = None,
        question_message = None\<rparr>"
  by code_simp

end
